theory Spec2Isabelle
  imports Main "HOL-Library.Option_ord" "HOL-Library.Product_Lexorder" "HOL-Library.Multiset"
begin

section \<open>The Content Store (src/backend/db.sql)\<close>

text \<open>
  The tables that the recommendation query of \<^verbatim>\<open>POST /api/v1/recommendations\<close>
  (src/backend/server.js, lines 447 to 645) reads. A table is the list of its rows. Columns
  keep their SQL names, prefixed by the alias the query gives the table. A nullable column is
  an \<open>option\<close>. \<^verbatim>\<open>imdb_rating NUMERIC(3, 1)\<close> is an exact decimal with one fractional digit
  and is held in tenths (\<open>88\<close> is 8.8). The descriptive columns of \<^verbatim>\<open>content\<close> that the query
  only passes through (external_api_id, poster_url, synopsis, tagline, director, main_cast)
  are left out, \<^verbatim>\<open>title\<close> standing for them.
\<close>

record content_row =
  c_uid :: string
  c_title :: string
  c_release_year :: "int option"
  c_content_type :: string
  c_duration_minutes :: "int option"
  c_number_of_seasons :: "int option"
  c_imdb_rating :: "int option"
  c_rotten_tomatoes_score :: "int option"
  c_parental_rating :: "string option"

record genres_row =
  g_uid :: string
  g_name :: string

record content_genres_row =
  cg_content_uid :: string
  cg_genre_uid :: string

record streaming_services_row =
  ss_uid :: string
  ss_name :: string
  ss_logo_url :: "string option"

record content_streaming_availability_row =
  csa_uid :: string
  csa_content_uid :: string
  csa_service_uid :: string
  csa_watch_link :: "string option"
  csa_region :: string

text \<open>
  Besides its tables the database has a default collation, the order in which it sorts
  text: \<open>collation s x y\<close> says that \<open>x\<close> sorts before \<open>y\<close> or is \<open>y\<close>. Nothing in
  db.sql chooses it, so it is part of the store.
\<close>

record store =
  content :: "content_row list"
  content_genres :: "content_genres_row list"
  genres :: "genres_row list"
  content_streaming_availability :: "content_streaming_availability_row list"
  streaming_services :: "streaming_services_row list"
  collation :: "string \<Rightarrow> string \<Rightarrow> bool"

section \<open>SQL values, three-valued logic and the joined relation\<close>

datatype sqlval = Null | IntV int | DecV int | TextV string

text \<open>\<open>DecV t\<close> is the decimal number \<open>t / 10\<close>. Numbers are compared through their tenths.\<close>

fun tenths :: "sqlval \<Rightarrow> int option" where
  "tenths (IntV n) = Some (10 * n)"
| "tenths (DecV t) = Some t"
| "tenths _ = None"

datatype cmp = EQ | LT | GT | GE

text \<open>
  A comparison with NULL is unknown (\<open>None\<close>). The builder compares text with \<^verbatim>\<open>=\<close> only; an
  ordering of text, which depends on the collation, and a comparison of text with a number
  are left unknown.
\<close>

fun holds :: "cmp \<Rightarrow> int \<Rightarrow> int \<Rightarrow> bool" where
  "holds EQ a b = (a = b)"
| "holds LT a b = (a < b)"
| "holds GT a b = (a > b)"
| "holds GE a b = (a \<ge> b)"

fun compare :: "cmp \<Rightarrow> sqlval \<Rightarrow> sqlval \<Rightarrow> bool option" where
  "compare EQ (TextV s) (TextV t) = Some (s = t)"
| "compare opr a b =
     (case (tenths a, tenths b) of (Some x, Some y) \<Rightarrow> Some (holds opr x y) | _ \<Rightarrow> None)"

fun and3 :: "bool option \<Rightarrow> bool option \<Rightarrow> bool option" where
  "and3 (Some False) _ = Some False"
| "and3 _ (Some False) = Some False"
| "and3 (Some True) (Some True) = Some True"
| "and3 _ _ = None"

fun or3 :: "bool option \<Rightarrow> bool option \<Rightarrow> bool option" where
  "or3 (Some True) _ = Some True"
| "or3 _ (Some True) = Some True"
| "or3 (Some False) (Some False) = Some False"
| "or3 _ _ = None"

definition not3 :: "bool option \<Rightarrow> bool option" where
  "not3 b = map_option Not b"

text \<open>
  \<^verbatim>\<open>A LEFT JOIN B ON p\<close>: every row of A with each row of B that matches it, or once with
  NULLs when none does.
\<close>

definition left_join :: "'a list \<Rightarrow> 'b list \<Rightarrow> ('a \<Rightarrow> 'b \<Rightarrow> bool) \<Rightarrow> ('a \<times> 'b option) list" where
  "left_join ls rs on =
     concat (map (\<lambda>l. case filter (on l) rs of
                         [] \<Rightarrow> [(l, None)]
                       | ms \<Rightarrow> map (\<lambda>r. (l, Some r)) ms) ls)"

record joined_row =
  r_c :: content_row
  r_g :: "genres_row option"
  r_csa :: "content_streaming_availability_row option"
  r_ss :: "streaming_services_row option"

text \<open>
  The FROM clause shared by both queries (server.js 492 to 501 and 596 to 600):
  \<^verbatim>\<open>content c LEFT JOIN content_genres cg ON c.uid = cg.content_uid
  LEFT JOIN genres g ON cg.genre_uid = g.uid
  LEFT JOIN content_streaming_availability csa ON c.uid = csa.content_uid
  LEFT JOIN streaming_services ss ON csa.service_uid = ss.uid\<close>
\<close>

definition joined :: "store \<Rightarrow> joined_row list" where
  "joined s =
     (let j1 = left_join (content s) (content_genres s)
                 (\<lambda>c cg. c_uid c = cg_content_uid cg);
          j2 = left_join j1 (genres s)
                 (\<lambda>(c, cg) g. case cg of None \<Rightarrow> False | Some x \<Rightarrow> cg_genre_uid x = g_uid g);
          j3 = left_join j2 (content_streaming_availability s)
                 (\<lambda>((c, cg), g) csa. c_uid c = csa_content_uid csa);
          j4 = left_join j3 (streaming_services s)
                 (\<lambda>(((c, cg), g), csa) ss.
                    case csa of None \<Rightarrow> False | Some x \<Rightarrow> csa_service_uid x = ss_uid ss)
      in map (\<lambda>((((c, cg), g), csa), ss). \<lparr>r_c = c, r_g = g, r_csa = csa, r_ss = ss\<rparr>) j4)"

section \<open>Conditions of the WHERE clause: structure, text and meaning\<close>

text \<open>
  The handler writes each condition as SQL text with numbered placeholders. The model keeps
  the structure that text denotes; \<open>render\<close> gives the text back, character for character.
\<close>

datatype column =
  Content_type | Release_year | Imdb_rating | Rotten_tomatoes_score | Parental_rating
| Duration_minutes | Number_of_seasons | G_uid | SS_uid

datatype operand = Col column | Param nat | Lit sqlval

datatype cond =
  Cmp operand cmp operand
| Between operand operand operand
| In operand "operand list"
| NotIn operand "operand list"
| And cond cond
| Or cond cond
| Paren cond

subsection \<open>Text\<close>

definition digit :: "nat \<Rightarrow> char" where
  "digit d = char_of (48 + d)"

fun show_nat :: "nat \<Rightarrow> string" where
  "show_nat n = (if n < 10 then [digit n] else show_nat (n div 10) @ [digit (n mod 10)])"

declare show_nat.simps [simp del]

definition show_int :: "int \<Rightarrow> string" where
  "show_int i = (if i < 0 then ''-'' @ show_nat (nat (- i)) else show_nat (nat i))"

text \<open>\<^verbatim>\<open>Array.prototype.join\<close>.\<close>

fun join :: "string \<Rightarrow> string list \<Rightarrow> string" where
  "join sep [] = []"
| "join sep [x] = x"
| "join sep (x # y # ys) = x @ sep @ join sep (y # ys)"

fun render_column :: "column \<Rightarrow> string" where
  "render_column Content_type = ''c.content_type''"
| "render_column Release_year = ''c.release_year''"
| "render_column Imdb_rating = ''c.imdb_rating''"
| "render_column Rotten_tomatoes_score = ''c.rotten_tomatoes_score''"
| "render_column Parental_rating = ''c.parental_rating''"
| "render_column Duration_minutes = ''c.duration_minutes''"
| "render_column Number_of_seasons = ''c.number_of_seasons''"
| "render_column G_uid = ''g.uid''"
| "render_column SS_uid = ''ss.uid''"

definition quote :: char where
  "quote = CHR 0x27"

text \<open>
  The only literals the handler writes are the fixed ones of the duration conditions
  (\<^verbatim>\<open>'movie'\<close>, \<^verbatim>\<open>'tv_show'\<close>, \<^verbatim>\<open>60\<close>, ...); no literal comes from the request.
\<close>

fun render_literal :: "sqlval \<Rightarrow> string" where
  "render_literal Null = ''NULL''"
| "render_literal (IntV n) = show_int n"
| "render_literal (DecV t) = show_int (t div 10) @ ''.'' @ show_nat (nat (t mod 10))"
| "render_literal (TextV s) = [quote] @ s @ [quote]"

fun render_operand :: "operand \<Rightarrow> string" where
  "render_operand (Col c) = render_column c"
| "render_operand (Param n) = ''$'' @ show_nat n"
| "render_operand (Lit v) = render_literal v"

fun render_cmp :: "cmp \<Rightarrow> string" where
  "render_cmp EQ = ''=''"
| "render_cmp LT = ''<''"
| "render_cmp GT = ''>''"
| "render_cmp GE = ''>=''"

fun render :: "cond \<Rightarrow> string" where
  "render (Cmp a opr b) = render_operand a @ '' '' @ render_cmp opr @ '' '' @ render_operand b"
| "render (Between x lo hi) =
     render_operand x @ '' BETWEEN '' @ render_operand lo @ '' AND '' @ render_operand hi"
| "render (In x vs) = render_operand x @ '' IN ('' @ join '','' (map render_operand vs) @ '')''"
| "render (NotIn x vs) =
     render_operand x @ '' NOT IN ('' @ join '','' (map render_operand vs) @ '')''"
| "render (And p q) = render p @ '' AND '' @ render q"
| "render (Or p q) = render p @ '' OR '' @ render q"
| "render (Paren p) = ''('' @ render p @ '')''"

subsection \<open>Meaning\<close>

fun column_value :: "joined_row \<Rightarrow> column \<Rightarrow> sqlval" where
  "column_value r Content_type = TextV (c_content_type (r_c r))"
| "column_value r Release_year = (case c_release_year (r_c r) of None \<Rightarrow> Null | Some y \<Rightarrow> IntV y)"
| "column_value r Imdb_rating = (case c_imdb_rating (r_c r) of None \<Rightarrow> Null | Some t \<Rightarrow> DecV t)"
| "column_value r Rotten_tomatoes_score =
     (case c_rotten_tomatoes_score (r_c r) of None \<Rightarrow> Null | Some n \<Rightarrow> IntV n)"
| "column_value r Parental_rating =
     (case c_parental_rating (r_c r) of None \<Rightarrow> Null | Some p \<Rightarrow> TextV p)"
| "column_value r Duration_minutes =
     (case c_duration_minutes (r_c r) of None \<Rightarrow> Null | Some d \<Rightarrow> IntV d)"
| "column_value r Number_of_seasons =
     (case c_number_of_seasons (r_c r) of None \<Rightarrow> Null | Some n \<Rightarrow> IntV n)"
| "column_value r G_uid = (case r_g r of None \<Rightarrow> Null | Some g \<Rightarrow> TextV (g_uid g))"
| "column_value r SS_uid = (case r_ss r of None \<Rightarrow> Null | Some ss \<Rightarrow> TextV (ss_uid ss))"

text \<open>
  Placeholder \<^verbatim>\<open>$n\<close> is the n-th bound parameter, counted from 1. A placeholder beyond the
  parameter list never reaches evaluation: \<open>bind_ok\<close> below rejects the query first.
\<close>

definition param :: "sqlval list \<Rightarrow> nat \<Rightarrow> sqlval" where
  "param ps n = (if 1 \<le> n \<and> n \<le> length ps then ps ! (n - 1) else Null)"

fun operand_value :: "sqlval list \<Rightarrow> joined_row \<Rightarrow> operand \<Rightarrow> sqlval" where
  "operand_value ps r (Col c) = column_value r c"
| "operand_value ps r (Param n) = param ps n"
| "operand_value ps r (Lit v) = v"

text \<open>
  \<^verbatim>\<open>x IN (v1, ..., vn)\<close> is \<^verbatim>\<open>x = v1 OR ... OR x = vn\<close> in three-valued logic, \<^verbatim>\<open>NOT IN\<close> its
  negation: with \<open>x\<close> NULL both are unknown.
\<close>

definition in3 :: "sqlval \<Rightarrow> sqlval list \<Rightarrow> bool option" where
  "in3 x vs = foldr (\<lambda>v acc. or3 (compare EQ x v) acc) vs (Some False)"

fun eval :: "sqlval list \<Rightarrow> joined_row \<Rightarrow> cond \<Rightarrow> bool option" where
  "eval ps r (Cmp a opr b) = compare opr (operand_value ps r a) (operand_value ps r b)"
| "eval ps r (Between x lo hi) =
     and3 (compare GE (operand_value ps r x) (operand_value ps r lo))
          (compare GE (operand_value ps r hi) (operand_value ps r x))"
| "eval ps r (In x vs) = in3 (operand_value ps r x) (map (operand_value ps r) vs)"
| "eval ps r (NotIn x vs) = not3 (in3 (operand_value ps r x) (map (operand_value ps r) vs))"
| "eval ps r (And p q) = and3 (eval ps r p) (eval ps r q)"
| "eval ps r (Or p q) = or3 (eval ps r p) (eval ps r q)"
| "eval ps r (Paren p) = eval ps r p"

text \<open>
  \<^verbatim>\<open>WHERE c1 AND ... AND cn\<close> keeps a row exactly when every condition is true on it (an
  unknown condition drops the row, as a false one does). With no condition there is no
  WHERE clause and every row is kept.
\<close>

definition passes :: "cond list \<Rightarrow> sqlval list \<Rightarrow> joined_row \<Rightarrow> bool" where
  "passes cs ps r = list_all (\<lambda>c. eval ps r c = Some True) cs"

text \<open>
  The server gives a placeholder the type of the column it is compared with and rejects a
  parameter that is not valid input for that type. The driver sends every value as text, so
  a number bound to a text column is accepted, while a number bound to an \<^verbatim>\<open>INTEGER\<close>
  column is an error when it has a fractional part (a whole number such as 8.0 is sent as
  \<^verbatim>\<open>8\<close>) or lies outside the 32-bit range of the type.
\<close>

definition int4 :: "int \<Rightarrow> bool" where
  "int4 n = (- 2147483648 \<le> n \<and> n \<le> 2147483647)"

datatype sqltype = TInteger | TNumeric | TText

fun column_type :: "column \<Rightarrow> sqltype" where
  "column_type Content_type = TText"
| "column_type Release_year = TInteger"
| "column_type Imdb_rating = TNumeric"
| "column_type Rotten_tomatoes_score = TInteger"
| "column_type Parental_rating = TText"
| "column_type Duration_minutes = TInteger"
| "column_type Number_of_seasons = TInteger"
| "column_type G_uid = TText"
| "column_type SS_uid = TText"

fun accepts :: "sqltype \<Rightarrow> sqlval \<Rightarrow> bool" where
  "accepts ty Null = True"
| "accepts TText v = True"
| "accepts TInteger (IntV n) = int4 n"
| "accepts TInteger (DecV t) = (t mod 10 = 0 \<and> int4 (t div 10))"
| "accepts TNumeric (IntV n) = True"
| "accepts TNumeric (DecV t) = True"
| "accepts ty (TextV s) = False"

fun typed_with :: "operand \<Rightarrow> operand \<Rightarrow> (nat \<times> sqltype) list" where
  "typed_with (Col c) (Param n) = [(n, column_type c)]"
| "typed_with a b = []"

fun param_types :: "cond \<Rightarrow> (nat \<times> sqltype) list" where
  "param_types (Cmp a opr b) = typed_with a b @ typed_with b a"
| "param_types (Between x lo hi) = typed_with x lo @ typed_with x hi"
| "param_types (In x vs) = concat (map (typed_with x) vs)"
| "param_types (NotIn x vs) = concat (map (typed_with x) vs)"
| "param_types (And p q) = param_types p @ param_types q"
| "param_types (Or p q) = param_types p @ param_types q"
| "param_types (Paren p) = param_types p"

fun operand_params :: "operand \<Rightarrow> nat list" where
  "operand_params (Param n) = [n]"
| "operand_params x = []"

fun cond_params :: "cond \<Rightarrow> nat list" where
  "cond_params (Cmp a opr b) = operand_params a @ operand_params b"
| "cond_params (Between x lo hi) = operand_params x @ operand_params lo @ operand_params hi"
| "cond_params (In x vs) = operand_params x @ concat (map operand_params vs)"
| "cond_params (NotIn x vs) = operand_params x @ concat (map operand_params vs)"
| "cond_params (And p q) = cond_params p @ cond_params q"
| "cond_params (Or p q) = cond_params p @ cond_params q"
| "cond_params (Paren p) = cond_params p"

text \<open>
  A placeholder with no parameter bound to it is an error of the server as well. The
  protocol of the server allows at most 65535 parameters for a statement; a request body,
  which \<^verbatim>\<open>express.json()\<close> (server.js 45) limits to 100 kB, cannot carry that many values, so
  this limit is never met and is left out.
\<close>

definition bind_ok :: "cond list \<Rightarrow> sqlval list \<Rightarrow> bool" where
  "bind_ok cs ps =
     (list_all (\<lambda>n. 1 \<le> n \<and> n \<le> length ps) (concat (map cond_params cs)) \<and>
      list_all (\<lambda>(n, ty). accepts ty (param ps n)) (concat (map param_types cs)))"

section \<open>Running the two queries (\<^verbatim>\<open>client.query\<close>)\<close>

datatype error = InternalServerError

definition matching :: "store \<Rightarrow> cond list \<Rightarrow> sqlval list \<Rightarrow> joined_row list" where
  "matching s cs ps = filter (passes cs ps) (joined s)"

text \<open>
  \<^verbatim>\<open>SELECT COUNT(DISTINCT c.uid) FROM ... WHERE ...\<close> (server.js 594 to 603). \<^verbatim>\<open>c.uid\<close> is the
  primary key, never NULL, so every kept row counts towards its uid.
\<close>

definition run_count :: "store \<Rightarrow> cond list \<Rightarrow> sqlval list \<Rightarrow> error + nat" where
  "run_count s cs ps =
     (if bind_ok cs ps
      then Inr (length (remdups (map (\<lambda>r. c_uid (r_c r)) (matching s cs ps))))
      else Inl InternalServerError)"

text \<open>
  \<^verbatim>\<open>GROUP BY c.uid\<close>: one output row per uid among the kept rows, with the columns of
  \<^verbatim>\<open>content\<close> and the two aggregates
  \<^verbatim>\<open>json_agg(DISTINCT ...) FILTER (WHERE g.uid IS NOT NULL)\<close> and
  \<^verbatim>\<open>json_agg(DISTINCT ...) FILTER (WHERE ss.uid IS NOT NULL)\<close>, which are NULL (\<open>None\<close>)
  when no row of the group gets past the filter.
\<close>

record result_row =
  row_content :: content_row
  row_genres :: "(string \<times> string) list option"
  row_available_on_services :: "(string \<times> string \<times> string option \<times> string option) list option"

text \<open>
  \<^verbatim>\<open>json_agg(DISTINCT x)\<close> sorts the values of \<open>x\<close> by the order of their type, drops the
  duplicates and aggregates what is left in that order. The values are \<^verbatim>\<open>jsonb\<close> objects
  with the same keys; such objects are compared value by value, the keys taken by length
  and then bytewise (\<^verbatim>\<open>uid\<close>, \<^verbatim>\<open>name\<close> for a genre; \<^verbatim>\<open>name\<close>, \<^verbatim>\<open>logo_url\<close>,
  \<^verbatim>\<open>watch_link\<close>, \<^verbatim>\<open>service_uid\<close> for a service), a null before every string and two
  strings by the collation of the database.
\<close>

fun insert_by :: "('a \<Rightarrow> 'a \<Rightarrow> bool) \<Rightarrow> 'a \<Rightarrow> 'a list \<Rightarrow> 'a list" where
  "insert_by le x [] = [x]"
| "insert_by le x (y # ys) = (if le x y then x # y # ys else y # insert_by le x ys)"

definition sort_by :: "('a \<Rightarrow> 'a \<Rightarrow> bool) \<Rightarrow> 'a list \<Rightarrow> 'a list" where
  "sort_by le xs = foldr (insert_by le) xs []"

fun null_first :: "(string \<Rightarrow> string \<Rightarrow> bool) \<Rightarrow> string option \<Rightarrow> string option \<Rightarrow> bool" where
  "null_first le None y = True"
| "null_first le (Some a) None = False"
| "null_first le (Some a) (Some b) = le a b"

definition genre_object_le ::
  "(string \<Rightarrow> string \<Rightarrow> bool) \<Rightarrow> string \<times> string \<Rightarrow> string \<times> string \<Rightarrow> bool" where
  "genre_object_le le x y =
     (case (x, y) of
        ((uid1, name1), (uid2, name2)) \<Rightarrow>
          if uid1 \<noteq> uid2 then le uid1 uid2 else le name1 name2)"

definition service_object_le ::
  "(string \<Rightarrow> string \<Rightarrow> bool) \<Rightarrow> string \<times> string \<times> string option \<times> string option
     \<Rightarrow> string \<times> string \<times> string option \<times> string option \<Rightarrow> bool" where
  "service_object_le le x y =
     (case (x, y) of
        ((uid1, name1, logo1, link1), (uid2, name2, logo2, link2)) \<Rightarrow>
          if name1 \<noteq> name2 then le name1 name2
          else if logo1 \<noteq> logo2 then null_first le logo1 logo2
          else if link1 \<noteq> link2 then null_first le link1 link2
          else le uid1 uid2)"

definition json_agg_distinct :: "('a \<Rightarrow> 'a \<Rightarrow> bool) \<Rightarrow> 'a list \<Rightarrow> 'a list option" where
  "json_agg_distinct le xs = (if xs = [] then None else Some (sort_by le (remdups xs)))"

definition genre_objects :: "joined_row list \<Rightarrow> (string \<times> string) list" where
  "genre_objects rs =
     concat (map (\<lambda>r. case r_g r of None \<Rightarrow> [] | Some g \<Rightarrow> [(g_uid g, g_name g)]) rs)"

definition service_objects ::
  "joined_row list \<Rightarrow> (string \<times> string \<times> string option \<times> string option) list" where
  "service_objects rs =
     concat (map (\<lambda>r. case r_ss r of
                         None \<Rightarrow> []
                       | Some ss \<Rightarrow>
                           [(ss_uid ss, ss_name ss, ss_logo_url ss,
                             case r_csa r of None \<Rightarrow> None | Some a \<Rightarrow> csa_watch_link a)]) rs)"

definition group_by_uid :: "(string \<Rightarrow> string \<Rightarrow> bool) \<Rightarrow> joined_row list \<Rightarrow> result_row list" where
  "group_by_uid le rs =
     concat (map (\<lambda>u. case filter (\<lambda>r. c_uid (r_c r) = u) rs of
                         [] \<Rightarrow> []
                       | r # rest \<Rightarrow>
                           [\<lparr>row_content = r_c r,
                             row_genres =
                               json_agg_distinct (genre_object_le le) (genre_objects (r # rest)),
                             row_available_on_services =
                               json_agg_distinct (service_object_le le)
                                 (service_objects (r # rest))\<rparr>])
                 (remdups (map (\<lambda>r. c_uid (r_c r)) rs)))"

text \<open>
  \<^verbatim>\<open>ORDER BY c.rotten_tomatoes_score DESC, c.imdb_rating DESC\<close>. In a descending order NULLs
  come first. The key is ascending for \<open>sort_key\<close>: \<open>None\<close> is least, then the larger score.
\<close>

definition order_key :: "result_row \<Rightarrow> int option \<times> int option" where
  "order_key row =
     (map_option uminus (c_rotten_tomatoes_score (row_content row)),
      map_option uminus (c_imdb_rating (row_content row)))"

text \<open>
  \<^verbatim>\<open>LIMIT $n OFFSET $m\<close>: both placeholders have the type \<^verbatim>\<open>bigint\<close>. A value outside its
  64-bit range and a negative value are errors of the server, NULL is no limit (no offset).
\<close>

definition int8 :: "int \<Rightarrow> bool" where
  "int8 n = (- 9223372036854775808 \<le> n \<and> n \<le> 9223372036854775807)"

fun row_count :: "sqlval \<Rightarrow> error + nat option" where
  "row_count Null = Inr None"
| "row_count (IntV n) =
     (if \<not> int8 n \<or> n < 0 then Inl InternalServerError else Inr (Some (nat n)))"
| "row_count (DecV t) =
     (if t mod 10 \<noteq> 0 \<or> \<not> int8 (t div 10) \<or> t < 0 then Inl InternalServerError
      else Inr (Some (nat (t div 10))))"
| "row_count (TextV s) = Inl InternalServerError"

definition limit_offset :: "nat option \<Rightarrow> nat option \<Rightarrow> 'a list \<Rightarrow> 'a list" where
  "limit_offset lim off xs =
     (let ys = (case off of None \<Rightarrow> xs | Some k \<Rightarrow> drop k xs)
      in case lim of None \<Rightarrow> ys | Some l \<Rightarrow> take l ys)"

text \<open>
  The page query (server.js 468 to 502, 580 to 591, 608). SQL fixes the order of the output
  only up to the ORDER BY keys: how rows with equal keys follow each other is the choice of
  the engine, and it may differ from one execution to the next. \<open>engine_order\<close> is that
  choice: the order in which the groups reach a stable sort.
\<close>

definition sorted_groups ::
  "(result_row list \<Rightarrow> result_row list) \<Rightarrow> store \<Rightarrow> cond list \<Rightarrow> sqlval list \<Rightarrow> result_row list" where
  "sorted_groups engine_order s cs ps =
     sort_key order_key (engine_order (group_by_uid (collation s) (matching s cs ps)))"

definition run_page ::
  "(result_row list \<Rightarrow> result_row list) \<Rightarrow> store \<Rightarrow> cond list \<Rightarrow> nat \<Rightarrow> nat \<Rightarrow> sqlval list
     \<Rightarrow> error + result_row list" where
  "run_page engine_order s cs lim off ps =
     (if \<not> bind_ok cs ps \<or> lim < 1 \<or> length ps < lim \<or> off < 1 \<or> length ps < off
      then Inl InternalServerError
      else case row_count (param ps lim) of
             Inl e \<Rightarrow> Inl e
           | Inr l \<Rightarrow>
               (case row_count (param ps off) of
                  Inl e \<Rightarrow> Inl e
                | Inr k \<Rightarrow> Inr (limit_offset l k (sorted_groups engine_order s cs ps))))"

section \<open>The handler of \<^verbatim>\<open>POST /api/v1/recommendations\<close> (server.js 447 to 645)\<close>

subsection \<open>The request body and its destructuring (server.js 448 to 462)\<close>

text \<open>
  \<^verbatim>\<open>req.body\<close>: a field that the JSON body does not have is \<open>None\<close> (\<^verbatim>\<open>undefined\<close>), and only
  then does its default apply. Years, \<^verbatim>\<open>page\<close> and \<^verbatim>\<open>page_size\<close> are whole numbers;
  \<^verbatim>\<open>min_rating\<close> is a decimal with one fractional digit, in tenths like \<^verbatim>\<open>imdb_rating\<close>.
  Values of other JavaScript types (an explicit \<^verbatim>\<open>null\<close>, a string where a number is
  expected, a year or a page with a fractional part) are outside this type. JavaScript
  numbers are doubles: a whole number is held exactly, and the arithmetic of the handler on
  it is exact, up to \<open>2^53 - 1 = 9007199254740991\<close> in magnitude; the integers of this
  theory are exact everywhere.
\<close>

record body =
  body_mood_uid :: "string option"
  body_streaming_service_uids :: "string list option"
  body_genre_uids :: "string list option"
  body_min_release_year :: "int option"
  body_max_release_year :: "int option"
  body_preferred_duration_category :: "string option"
  body_min_rating :: "int option"
  body_preferred_content_type :: "string option"
  body_parental_rating_filter_json :: "string option"
  body_excluded_genre_uids :: "string list option"
  body_excluded_service_uids :: "string list option"
  body_page :: "int option"
  body_page_size :: "int option"

record locals =
  mood_uid :: "string option"
  streaming_service_uids :: "string list option"
  genre_uids :: "string list option"
  min_release_year :: int
  max_release_year :: int
  preferred_duration_category :: string
  min_rating :: int
  preferred_content_type :: string
  parental_rating_filter_json :: string
  excluded_genre_uids :: "string list"
  excluded_service_uids :: "string list"
  page :: int
  page_size :: int

definition or_default :: "'a option \<Rightarrow> 'a \<Rightarrow> 'a" where
  "or_default field d = (case field of None \<Rightarrow> d | Some v \<Rightarrow> v)"

text \<open>\<open>current_year\<close> is \<^verbatim>\<open>new Date().getFullYear()\<close>.\<close>

definition destructure :: "int \<Rightarrow> body \<Rightarrow> locals" where
  "destructure current_year b =
     \<lparr>mood_uid = body_mood_uid b,
      streaming_service_uids = body_streaming_service_uids b,
      genre_uids = body_genre_uids b,
      min_release_year = or_default (body_min_release_year b) 1900,
      max_release_year = or_default (body_max_release_year b) current_year,
      preferred_duration_category = or_default (body_preferred_duration_category b) ''any'',
      min_rating = or_default (body_min_rating b) 0,
      preferred_content_type = or_default (body_preferred_content_type b) ''both'',
      parental_rating_filter_json = or_default (body_parental_rating_filter_json b) ''[]'',
      excluded_genre_uids = or_default (body_excluded_genre_uids b) [],
      excluded_service_uids = or_default (body_excluded_service_uids b) [],
      page = or_default (body_page b) 1,
      page_size = or_default (body_page_size b) 20\<rparr>"

subsection \<open>Building the parameter list and the conditions (server.js 504 to 577)\<close>

record builder =
  queryParams :: "sqlval list"
  whereClauses :: "cond list"

definition push_params :: "sqlval list \<Rightarrow> builder \<Rightarrow> builder" where
  "push_params vs b = b\<lparr>queryParams := queryParams b @ vs\<rparr>"

definition push_clause :: "cond \<Rightarrow> builder \<Rightarrow> builder" where
  "push_clause c b = b\<lparr>whereClauses := whereClauses b @ [c]\<rparr>"

text \<open>
  \<^verbatim>\<open>xs.map((_, i) => `$${queryParams.length - xs.length + 1 + i}`)\<close>, read after \<open>xs\<close> has
  been pushed: the placeholders of the last \<open>k\<close> parameters.
\<close>

definition placeholders :: "builder \<Rightarrow> nat \<Rightarrow> operand list" where
  "placeholders b k = map (\<lambda>i. Param (length (queryParams b) - k + 1 + i)) [0..<k]"

definition filter_by_content_type :: "locals \<Rightarrow> builder \<Rightarrow> builder" where
  "filter_by_content_type a b =
     (if preferred_content_type a \<noteq> ''both''
      then let b1 = push_params [TextV (preferred_content_type a)] b
           in push_clause (Cmp (Col Content_type) EQ (Param (length (queryParams b1)))) b1
      else b)"

text \<open>\<^verbatim>\<open>if (min_release_year && max_release_year)\<close>: a number is truthy when it is not 0.\<close>

definition filter_by_release_year :: "locals \<Rightarrow> builder \<Rightarrow> builder" where
  "filter_by_release_year a b =
     (if min_release_year a \<noteq> 0 \<and> max_release_year a \<noteq> 0
      then let b1 = push_params [IntV (min_release_year a), IntV (max_release_year a)] b
           in push_clause (Between (Col Release_year)
                             (Param (length (queryParams b1) - 1))
                             (Param (length (queryParams b1)))) b1
      else b)"

definition filter_by_minimum_rating :: "locals \<Rightarrow> builder \<Rightarrow> builder" where
  "filter_by_minimum_rating a b =
     (if min_rating a > 0
      then let b1 = push_params [DecV (min_rating a), DecV (min_rating a)] b
           in push_clause
                (Paren (Or (Cmp (Col Imdb_rating) GE (Param (length (queryParams b1) - 1)))
                           (Cmp (Col Rotten_tomatoes_score) GE (Param (length (queryParams b1))))))
                b1
      else b)"

text \<open>
  \<open>JSON_parse\<close> is JavaScript's \<^verbatim>\<open>JSON.parse\<close>, with its result sorted by what the block of
  server.js 526 to 532 does with it:
  \<^item> \<open>Throws\<close>: the text is not JSON and \<^verbatim>\<open>JSON.parse\<close> throws;
  \<^item> \<open>Null_value\<close>: \<^verbatim>\<open>null\<close>, whose \<^verbatim>\<open>.length\<close> cannot be read (a TypeError);
  \<^item> \<open>String_value txt\<close>: a string; when it is not empty its characters are pushed and
    \<^verbatim>\<open>parentalRatings.map\<close> is not a function (a TypeError);
  \<^item> \<open>Other_value positive\<close>: a number, a boolean or an object; \<open>positive\<close> says whether
    \<^verbatim>\<open>parentalRatings.length > 0\<close> holds, which only an object with a \<^verbatim>\<open>length\<close> property can
    make true, and then spreading it throws (it is not iterable);
  \<^item> \<open>Array_value elements\<close>: an array, each element as the driver sends it for a
    placeholder: the text of the element, or \<open>None\<close> (NULL) for \<^verbatim>\<open>null\<close>.
  Every exception ends in the handler's \<^verbatim>\<open>catch\<close> block, which answers 500.
\<close>

datatype parsed =
  Throws
| Null_value
| String_value string
| Other_value bool
| Array_value "string option list"

definition bound_text :: "string option \<Rightarrow> sqlval" where
  "bound_text element = (case element of None \<Rightarrow> Null | Some txt \<Rightarrow> TextV txt)"

definition filter_by_parental_rating ::
  "(string \<Rightarrow> parsed) \<Rightarrow> locals \<Rightarrow> builder \<Rightarrow> error + builder" where
  "filter_by_parental_rating JSON_parse a b =
     (if parental_rating_filter_json a \<noteq> [] \<and> parental_rating_filter_json a \<noteq> ''[]''
      then case JSON_parse (parental_rating_filter_json a) of
             Throws \<Rightarrow> Inl InternalServerError
           | Null_value \<Rightarrow> Inl InternalServerError
           | String_value txt \<Rightarrow> if length txt > 0 then Inl InternalServerError else Inr b
           | Other_value positive \<Rightarrow> if positive then Inl InternalServerError else Inr b
           | Array_value parentalRatings \<Rightarrow>
               if length parentalRatings > 0
               then let b1 = push_params (map bound_text parentalRatings) b
                    in Inr (push_clause
                              (In (Col Parental_rating) (placeholders b1 (length parentalRatings)))
                              b1)
               else Inr b
      else Inr b)"

text \<open>The \<^verbatim>\<open>switch\<close> of server.js 537 to 547; \<open>None\<close> is the empty \<^verbatim>\<open>durationCondition\<close>.\<close>

definition durationCondition :: "string \<Rightarrow> cond option" where
  "durationCondition category =
     (if category = ''short'' then
        Some (Or (Paren (And (Cmp (Col Content_type) EQ (Lit (TextV ''movie'')))
                             (Cmp (Col Duration_minutes) LT (Lit (IntV 60)))))
                 (Paren (And (Cmp (Col Content_type) EQ (Lit (TextV ''tv_show'')))
                             (Cmp (Col Number_of_seasons) EQ (Lit (IntV 1))))))
      else if category = ''medium'' then
        Some (Or (Paren (And (Cmp (Col Content_type) EQ (Lit (TextV ''movie'')))
                             (Between (Col Duration_minutes) (Lit (IntV 60)) (Lit (IntV 120)))))
                 (Paren (And (Cmp (Col Content_type) EQ (Lit (TextV ''tv_show'')))
                             (Between (Col Number_of_seasons) (Lit (IntV 2)) (Lit (IntV 4))))))
      else if category = ''long'' then
        Some (Or (Paren (And (Cmp (Col Content_type) EQ (Lit (TextV ''movie'')))
                             (Cmp (Col Duration_minutes) GT (Lit (IntV 120)))))
                 (Paren (And (Cmp (Col Content_type) EQ (Lit (TextV ''tv_show'')))
                             (Cmp (Col Number_of_seasons) GT (Lit (IntV 4))))))
      else None)"

definition filter_by_duration :: "locals \<Rightarrow> builder \<Rightarrow> builder" where
  "filter_by_duration a b =
     (if preferred_duration_category a \<noteq> ''any''
      then case durationCondition (preferred_duration_category a) of
             None \<Rightarrow> b
           | Some c \<Rightarrow> push_clause (Paren c) b
      else b)"

definition filter_by_genres :: "locals \<Rightarrow> builder \<Rightarrow> builder" where
  "filter_by_genres a b =
     (case genre_uids a of
        None \<Rightarrow> b
      | Some uids \<Rightarrow>
          if length uids > 0
          then let b1 = push_params (map TextV uids) b
               in push_clause (In (Col G_uid) (placeholders b1 (length uids))) b1
          else b)"

definition exclude_by_genres :: "locals \<Rightarrow> builder \<Rightarrow> builder" where
  "exclude_by_genres a b =
     (if length (excluded_genre_uids a) > 0
      then let b1 = push_params (map TextV (excluded_genre_uids a)) b
           in push_clause (NotIn (Col G_uid) (placeholders b1 (length (excluded_genre_uids a)))) b1
      else b)"

definition filter_by_streaming_services :: "locals \<Rightarrow> builder \<Rightarrow> builder" where
  "filter_by_streaming_services a b =
     (case streaming_service_uids a of
        None \<Rightarrow> b
      | Some uids \<Rightarrow>
          if length uids > 0
          then let b1 = push_params (map TextV uids) b
               in push_clause (In (Col SS_uid) (placeholders b1 (length uids))) b1
          else b)"

definition exclude_streaming_services :: "locals \<Rightarrow> builder \<Rightarrow> builder" where
  "exclude_streaming_services a b =
     (if length (excluded_service_uids a) > 0
      then let b1 = push_params (map TextV (excluded_service_uids a)) b
           in push_clause
                (NotIn (Col SS_uid) (placeholders b1 (length (excluded_service_uids a)))) b1
      else b)"

definition build :: "(string \<Rightarrow> parsed) \<Rightarrow> locals \<Rightarrow> error + builder" where
  "build JSON_parse a =
     (let b0 = \<lparr>queryParams = [], whereClauses = []\<rparr>;
          b1 = filter_by_content_type a b0;
          b2 = filter_by_release_year a b1;
          b3 = filter_by_minimum_rating a b2
      in case filter_by_parental_rating JSON_parse a b3 of
           Inl e \<Rightarrow> Inl e
         | Inr b4 \<Rightarrow>
             Inr (exclude_streaming_services a
                   (filter_by_streaming_services a
                     (exclude_by_genres a
                       (filter_by_genres a
                         (filter_by_duration a b4))))))"

subsection \<open>The text of the two queries (server.js 468 to 502, 580 to 602)\<close>

definition line :: "nat \<Rightarrow> string \<Rightarrow> string" where
  "line indent txt = replicate indent CHR '' '' @ txt @ [CHR 0x0A]"

definition select_from :: string where
  "select_from =
     [CHR 0x0A] @
     line 6 ''SELECT'' @
     line 10 ''c.uid,'' @
     line 10 ''c.external_api_id,'' @
     line 10 ''c.title,'' @
     line 10 ''c.release_year,'' @
     line 10 ''c.content_type,'' @
     line 10 ''c.poster_url,'' @
     line 10 ''c.synopsis,'' @
     line 10 ''c.tagline,'' @
     line 10 ''c.duration_minutes,'' @
     line 10 ''c.number_of_seasons,'' @
     line 10 ''c.imdb_rating,'' @
     line 10 ''c.rotten_tomatoes_score,'' @
     line 10 ''c.parental_rating,'' @
     line 10 ''c.director,'' @
     line 10 ''c.main_cast,'' @
     line 10 (''json_agg(DISTINCT jsonb_build_object('' @ [quote] @ ''uid'' @ [quote] @
              '', g.uid, '' @ [quote] @ ''name'' @ [quote] @
              '', g.name)) FILTER (WHERE g.uid IS NOT NULL) AS genres,'') @
     line 10 ''json_agg(DISTINCT jsonb_build_object('' @
     line 14 ([quote] @ ''service_uid'' @ [quote] @ '', ss.uid,'') @
     line 14 ([quote] @ ''name'' @ [quote] @ '', ss.name,'') @
     line 14 ([quote] @ ''logo_url'' @ [quote] @ '', ss.logo_url,'') @
     line 14 ([quote] @ ''watch_link'' @ [quote] @ '', csa.watch_link'') @
     line 10 '')) FILTER (WHERE ss.uid IS NOT NULL) AS available_on_services'' @
     line 6 ''FROM'' @
     line 10 ''content c'' @
     line 6 ''LEFT JOIN'' @
     line 10 ''content_genres cg ON c.uid = cg.content_uid'' @
     line 6 ''LEFT JOIN'' @
     line 10 ''genres g ON cg.genre_uid = g.uid'' @
     line 6 ''LEFT JOIN'' @
     line 10 ''content_streaming_availability csa ON c.uid = csa.content_uid'' @
     line 6 ''LEFT JOIN'' @
     line 10 ''streaming_services ss ON csa.service_uid = ss.uid'' @
     replicate 4 CHR '' ''"

definition query_text :: "builder \<Rightarrow> string" where
  "query_text b =
     select_from @
     (if length (whereClauses b) > 0
      then '' WHERE '' @ join '' AND '' (map render (whereClauses b)) else []) @
     [CHR 0x0A] @
     line 6 ''GROUP BY'' @
     line 10 ''c.uid'' @
     line 6 ''ORDER BY'' @
     line 10 (''c.rotten_tomatoes_score DESC, c.imdb_rating DESC '' @
              ''-- Prioritize higher rated content first'') @
     line 6 (''LIMIT $'' @ show_nat (length (queryParams b) + 1) @
             '' OFFSET $'' @ show_nat (length (queryParams b) + 2) @ '';'') @
     replicate 4 CHR '' ''"

definition countQuery_text :: "builder \<Rightarrow> string" where
  "countQuery_text b =
     [CHR 0x0A] @
     line 6 ''SELECT COUNT(DISTINCT c.uid)'' @
     line 6 ''FROM content c'' @
     line 6 ''LEFT JOIN content_genres cg ON c.uid = cg.content_uid'' @
     line 6 ''LEFT JOIN genres g ON cg.genre_uid = g.uid'' @
     line 6 ''LEFT JOIN content_streaming_availability csa ON c.uid = csa.content_uid'' @
     line 6 ''LEFT JOIN streaming_services ss ON csa.service_uid = ss.uid'' @
     line 6 (if length (whereClauses b) > 0
             then ''WHERE '' @ join '' AND '' (map render (whereClauses b)) else []) @
     replicate 4 CHR '' ''"

subsection \<open>The handler\<close>

text \<open>
  \<^verbatim>\<open>formattedRecommendations\<close> (server.js 611 to 629): the columns pass through
  (\<^verbatim>\<open>parseFloat\<close> of the decimal text of \<^verbatim>\<open>imdb_rating\<close> is the same number), and a NULL
  aggregate becomes the empty array (\<^verbatim>\<open>row.genres || []\<close>).
\<close>

record recommendation =
  rec_content :: content_row
  rec_genres :: "(string \<times> string) list"
  rec_available_on_services :: "(string \<times> string \<times> string option \<times> string option) list"

definition format_row :: "result_row \<Rightarrow> recommendation" where
  "format_row row =
     \<lparr>rec_content = row_content row,
      rec_genres = or_default (row_genres row) [],
      rec_available_on_services = or_default (row_available_on_services row) []\<rparr>"

text \<open>The body of the 200 response; \<open>Inl InternalServerError\<close> is the 500 response.\<close>

record response =
  recommendations :: "recommendation list"
  total_results :: nat
  res_page :: int
  res_page_size :: int

definition status :: "error + response \<Rightarrow> nat" where
  "status r = (case r of Inl e \<Rightarrow> 500 | Inr ok \<Rightarrow> 200)"

text \<open>
  The handler (server.js 464 to 644): it builds the conditions, runs the count query, pushes
  \<^verbatim>\<open>page_size\<close> and \<^verbatim>\<open>offset\<close> and runs the page query. An exception anywhere ends in the
  \<^verbatim>\<open>catch\<close> block, which answers 500.
\<close>

definition handler ::
  "(string \<Rightarrow> parsed) \<Rightarrow> int \<Rightarrow> (result_row list \<Rightarrow> result_row list) \<Rightarrow> store \<Rightarrow> body
     \<Rightarrow> error + response" where
  "handler JSON_parse current_year engine_order s req_body =
     (let a = destructure current_year req_body;
          offset = (page a - 1) * page_size a
      in case build JSON_parse a of
           Inl e \<Rightarrow> Inl e
         | Inr b \<Rightarrow>
             (case run_count s (whereClauses b) (queryParams b) of
                Inl e \<Rightarrow> Inl e
              | Inr counted \<Rightarrow>
                  (case run_page engine_order s (whereClauses b)
                          (length (queryParams b) + 1) (length (queryParams b) + 2)
                          (queryParams b @ [IntV (page_size a), IntV offset]) of
                     Inl e \<Rightarrow> Inl e
                   | Inr rows \<Rightarrow>
                       Inr \<lparr>recommendations = map format_row rows,
                            total_results = counted,
                            res_page = page a,
                            res_page_size = page_size a\<rparr>)))"

section \<open>Example data\<close>

text \<open>
  Small stores and request bodies on which the handler is run below. \<open>no_JSON\<close> stands for
  \<^verbatim>\<open>JSON.parse\<close> where it is never called (the examples leave
  \<^verbatim>\<open>parental_rating_filter_json\<close> at its default); ratings are in tenths, so \<open>Some 70\<close> is
  an IMDb rating of 7.0.
\<close>

definition no_JSON :: "string \<Rightarrow> parsed" where
  "no_JSON txt = Throws"

definition empty_body :: body where
  "empty_body =
     \<lparr>body_mood_uid = None, body_streaming_service_uids = None, body_genre_uids = None,
      body_min_release_year = None, body_max_release_year = None,
      body_preferred_duration_category = None, body_min_rating = None,
      body_preferred_content_type = None, body_parental_rating_filter_json = None,
      body_excluded_genre_uids = None, body_excluded_service_uids = None,
      body_page = None, body_page_size = None\<rparr>"

definition movie :: "string \<Rightarrow> int \<Rightarrow> int option \<Rightarrow> int option \<Rightarrow> int option \<Rightarrow> content_row" where
  "movie uid year minutes imdb score =
     \<lparr>c_uid = uid, c_title = uid, c_release_year = Some year, c_content_type = ''movie'',
      c_duration_minutes = minutes, c_number_of_seasons = None, c_imdb_rating = imdb,
      c_rotten_tomatoes_score = score, c_parental_rating = Some ''PG''\<rparr>"

text \<open>The collation \<^verbatim>\<open>C\<close>: text is sorted byte by byte.\<close>

fun bytewise :: "string \<Rightarrow> string \<Rightarrow> bool" where
  "bytewise [] ys = True"
| "bytewise (x # xs) [] = False"
| "bytewise (x # xs) (y # ys) =
     ((of_char x :: nat) < of_char y \<or> x = y \<and> bytewise xs ys)"

definition store_no_genre :: store where
  "store_no_genre =
     \<lparr>content = [movie ''solo'' 2000 (Some 100) (Some 70) (Some 80)],
      content_genres = [],
      genres = [\<lparr>g_uid = ''g1'', g_name = ''Horror''\<rparr>],
      content_streaming_availability = [],
      streaming_services = [],
      collation = bytewise\<rparr>"

definition store_two_genres :: store where
  "store_two_genres =
     \<lparr>content = [movie ''m'' 2000 (Some 100) (Some 70) (Some 80)],
      content_genres = [\<lparr>cg_content_uid = ''m'', cg_genre_uid = ''g1''\<rparr>,
                        \<lparr>cg_content_uid = ''m'', cg_genre_uid = ''g2''\<rparr>],
      genres = [\<lparr>g_uid = ''g1'', g_name = ''Horror''\<rparr>,
                \<lparr>g_uid = ''g2'', g_name = ''Comedy''\<rparr>],
      content_streaming_availability = [],
      streaming_services = [],
      collation = bytewise\<rparr>"

definition store_tie :: store where
  "store_tie =
     \<lparr>content = [movie ''a'' 2000 (Some 100) (Some 70) (Some 80),
                 movie ''b'' 2001 (Some 110) (Some 70) (Some 80)],
      content_genres = [],
      genres = [],
      content_streaming_availability = [],
      streaming_services = [],
      collation = bytewise\<rparr>"

definition store_future :: store where
  "store_future =
     \<lparr>content = [movie ''next'' 2030 None None None],
      content_genres = [],
      genres = [],
      content_streaming_availability = [],
      streaming_services = [],
      collation = bytewise\<rparr>"

text \<open>Titles on the bounds 1900 and 2026 of a year range, beside them, and without a year.\<close>

definition store_years :: store where
  "store_years =
     \<lparr>content = [movie ''y1899'' 1899 None None None, movie ''y1900'' 1900 None None None,
                 movie ''y1950'' 1950 None None None, movie ''y2026'' 2026 None None None,
                 movie ''y2027'' 2027 None None None,
                 (movie ''undated'' 0 None None None)\<lparr>c_release_year := None\<rparr>],
      content_genres = [], genres = [], content_streaming_availability = [],
      streaming_services = [],
      collation = bytewise\<rparr>"

definition store_ranked :: store where
  "store_ranked =
     \<lparr>content = [movie ''x'' 2000 None (Some 70) (Some 90),
                 movie ''y'' 2001 None (Some 80) (Some 90),
                 movie ''z'' 2002 None (Some 95) None,
                 movie ''w'' 2003 None (Some 99) (Some 50)],
      content_genres = [], genres = [], content_streaming_availability = [],
      streaming_services = [],
      collation = bytewise\<rparr>"



text \<open>Five titles with the same two ratings, and an order of delivery that exchanges the
  first two rows.\<close>

definition store_five_tied :: store where
  "store_five_tied =
     \<lparr>content = [movie ''t00'' 2000 None (Some 70) (Some 80),
                 movie ''t01'' 2001 None (Some 70) (Some 80),
                 movie ''t02'' 2002 None (Some 70) (Some 80),
                 movie ''t03'' 2003 None (Some 70) (Some 80),
                 movie ''t04'' 2004 None (Some 70) (Some 80)],
      content_genres = [], genres = [], content_streaming_availability = [],
      streaming_services = [],
      collation = bytewise\<rparr>"

fun swap_first_two :: "'a list \<Rightarrow> 'a list" where
  "swap_first_two (x # y # rest) = y # x # rest"
| "swap_first_two xs = xs"

definition body_plain :: body where
  "body_plain =
     empty_body\<lparr>body_genre_uids := Some [''g1'', ''g2''],
                body_min_release_year := Some 1990,
                body_preferred_content_type := Some ''movie''\<rparr>"

definition body_hostile :: body where
  "body_hostile =
     empty_body\<lparr>body_genre_uids := Some [''x) OR (1=1'', ''; DROP TABLE content; --''],
                body_max_release_year := Some 1960,
                body_preferred_content_type := Some ''tv_show; --''\<rparr>"

definition returned_uids :: "error + response \<Rightarrow> string list" where
  "returned_uids r = (case r of Inl e \<Rightarrow> [] | Inr ok \<Rightarrow> map (\<lambda>x. c_uid (rec_content x)) (recommendations ok))"

section \<open>The 200 response in closed form\<close>

text \<open>
  What the handler answers when nothing fails (lemma \<open>handler_Inr_iff\<close> below): the page
  is cut from the sorted groups, the count is taken over the same kept rows.
\<close>

definition response_of ::
  "(result_row list \<Rightarrow> result_row list) \<Rightarrow> store \<Rightarrow> locals \<Rightarrow> builder \<Rightarrow> response" where
  "response_of eo s a b =
     \<lparr>recommendations =
        map format_row
          (take (nat (page_size a))
             (drop (nat ((page a - 1) * page_size a))
                (sorted_groups eo s (whereClauses b) (queryParams b)))),
      total_results =
        length (remdups (map (\<lambda>r. c_uid (r_c r)) (matching s (whereClauses b) (queryParams b)))),
      res_page = page a,
      res_page_size = page_size a\<rparr>"

section \<open>What the built conditions mean on a joined row\<close>

text \<open>
  The reading of each block of server.js 507 to 577 on one joined row, and the property
  that every placeholder of a builder has its parameter. They are tied to the built
  conditions by the lemmas of section \<open>The meaning of the built conditions\<close>.
\<close>

definition well_bound :: "builder \<Rightarrow> bool" where
  "well_bound b =
     list_all (\<lambda>n. 1 \<le> n \<and> n \<le> length (queryParams b))
       (concat (map cond_params (whereClauses b)))"

text \<open>
  The server accepts the parameters of the year condition and of the rating condition when
  they are valid input for an \<^verbatim>\<open>INTEGER\<close> column; the parameters of the other conditions are
  bound to text columns.
\<close>

definition years_fit :: "locals \<Rightarrow> bool" where
  "years_fit a =
     (min_release_year a = 0 \<or> max_release_year a = 0 \<or>
      int4 (min_release_year a) \<and> int4 (max_release_year a))"

definition rating_fits :: "locals \<Rightarrow> bool" where
  "rating_fits a =
     (min_rating a \<le> 0 \<or> min_rating a mod 10 = 0 \<and> int4 (min_rating a div 10))"

definition sat_content_type :: "locals \<Rightarrow> joined_row \<Rightarrow> bool" where
  "sat_content_type a r =
     (preferred_content_type a = ''both'' \<or> c_content_type (r_c r) = preferred_content_type a)"

definition sat_release_year :: "locals \<Rightarrow> joined_row \<Rightarrow> bool" where
  "sat_release_year a r =
     (min_release_year a = 0 \<or> max_release_year a = 0 \<or>
      (case c_release_year (r_c r) of
         None \<Rightarrow> False
       | Some y \<Rightarrow> min_release_year a \<le> y \<and> y \<le> max_release_year a))"

definition sat_minimum_rating :: "locals \<Rightarrow> joined_row \<Rightarrow> bool" where
  "sat_minimum_rating a r =
     (min_rating a \<le> 0 \<or>
      (case c_imdb_rating (r_c r) of None \<Rightarrow> False | Some t \<Rightarrow> min_rating a \<le> t) \<or>
      (case c_rotten_tomatoes_score (r_c r) of None \<Rightarrow> False | Some n \<Rightarrow> min_rating a \<le> 10 * n))"

definition sat_parental_rating :: "(string \<Rightarrow> parsed) \<Rightarrow> locals \<Rightarrow> joined_row \<Rightarrow> bool" where
  "sat_parental_rating JSON_parse a r =
     (parental_rating_filter_json a = [] \<or> parental_rating_filter_json a = ''[]'' \<or>
      (case JSON_parse (parental_rating_filter_json a) of
         Array_value parentalRatings \<Rightarrow>
           parentalRatings = [] \<or>
           (case c_parental_rating (r_c r) of
              None \<Rightarrow> False
            | Some p \<Rightarrow> Some p \<in> set parentalRatings)
       | other \<Rightarrow> True))"

definition sat_duration :: "locals \<Rightarrow> joined_row \<Rightarrow> bool" where
  "sat_duration a r =
     (preferred_duration_category a = ''any'' \<or>
      (case durationCondition (preferred_duration_category a) of
         None \<Rightarrow> True
       | Some c \<Rightarrow> eval [] r c = Some True))"

definition sat_genres :: "locals \<Rightarrow> joined_row \<Rightarrow> bool" where
  "sat_genres a r =
     (case genre_uids a of
        None \<Rightarrow> True
      | Some uids \<Rightarrow>
          uids = [] \<or> (case r_g r of None \<Rightarrow> False | Some g \<Rightarrow> g_uid g \<in> set uids))"

definition sat_excluded_genres :: "locals \<Rightarrow> joined_row \<Rightarrow> bool" where
  "sat_excluded_genres a r =
     (excluded_genre_uids a = [] \<or>
      (case r_g r of None \<Rightarrow> False | Some g \<Rightarrow> g_uid g \<notin> set (excluded_genre_uids a)))"

definition sat_streaming_services :: "locals \<Rightarrow> joined_row \<Rightarrow> bool" where
  "sat_streaming_services a r =
     (case streaming_service_uids a of
        None \<Rightarrow> True
      | Some uids \<Rightarrow>
          uids = [] \<or> (case r_ss r of None \<Rightarrow> False | Some ss \<Rightarrow> ss_uid ss \<in> set uids))"

definition sat_excluded_services :: "locals \<Rightarrow> joined_row \<Rightarrow> bool" where
  "sat_excluded_services a r =
     (excluded_service_uids a = [] \<or>
      (case r_ss r of None \<Rightarrow> False | Some ss \<Rightarrow> ss_uid ss \<notin> set (excluded_service_uids a)))"

section \<open>The ORDER BY clause, read on two output rows\<close>

text \<open>
  \<^verbatim>\<open>ORDER BY c.rotten_tomatoes_score DESC, c.imdb_rating DESC\<close>: \<open>desc_nulls_first x y\<close> says
  that \<open>x\<close> may stand before \<open>y\<close> in a descending order (NULL before every number), and
  \<open>ranks_before\<close> is the two-key order of the clause.
\<close>

definition desc_nulls_first :: "int option \<Rightarrow> int option \<Rightarrow> bool" where
  "desc_nulls_first x y =
     (case x of None \<Rightarrow> True | Some a \<Rightarrow> (case y of None \<Rightarrow> False | Some b \<Rightarrow> b \<le> a))"

definition ranks_before :: "result_row \<Rightarrow> result_row \<Rightarrow> bool" where
  "ranks_before x y =
     (desc_nulls_first (c_rotten_tomatoes_score (row_content x))
                       (c_rotten_tomatoes_score (row_content y)) \<and>
      (c_rotten_tomatoes_score (row_content x) = c_rotten_tomatoes_score (row_content y) \<longrightarrow>
       desc_nulls_first (c_imdb_rating (row_content x)) (c_imdb_rating (row_content y))))"

section \<open>The shape of a request\<close>

text \<open>
  Which conditions a request switches on, and how many values each list-valued one
  carries: nothing of the values themselves. \<open>parental_count\<close> is \<open>None\<close> when the
  parental-rating block throws, in which case no query is built at all.
\<close>

definition uid_count :: "string list option \<Rightarrow> nat" where
  "uid_count field = (case field of None \<Rightarrow> 0 | Some uids \<Rightarrow> length uids)"

definition parental_count :: "(string \<Rightarrow> parsed) \<Rightarrow> locals \<Rightarrow> nat option" where
  "parental_count JSON_parse a =
     (if parental_rating_filter_json a \<noteq> [] \<and> parental_rating_filter_json a \<noteq> ''[]''
      then case JSON_parse (parental_rating_filter_json a) of
             Throws \<Rightarrow> None
           | Null_value \<Rightarrow> None
           | String_value txt \<Rightarrow> if length txt > 0 then None else Some 0
           | Other_value positive \<Rightarrow> if positive then None else Some 0
           | Array_value parentalRatings \<Rightarrow> Some (length parentalRatings)
      else Some 0)"

definition duration_choice :: "locals \<Rightarrow> cond option" where
  "duration_choice a =
     (if preferred_duration_category a \<noteq> ''any''
      then durationCondition (preferred_duration_category a) else None)"

definition shape ::
  "(string \<Rightarrow> parsed) \<Rightarrow> locals
     \<Rightarrow> bool \<times> bool \<times> bool \<times> nat option \<times> cond option \<times> nat \<times> nat \<times> nat \<times> nat" where
  "shape JSON_parse a =
     (preferred_content_type a \<noteq> ''both'',
      min_release_year a \<noteq> 0 \<and> max_release_year a \<noteq> 0,
      0 < min_rating a,
      parental_count JSON_parse a,
      duration_choice a,
      uid_count (genre_uids a),
      length (excluded_genre_uids a),
      uid_count (streaming_service_uids a),
      length (excluded_service_uids a))"

section \<open>Three-valued logic\<close>

lemma and3_True [simp]: "(and3 x y = Some True) = (x = Some True \<and> y = Some True)"
  by (cases "(x, y)" rule: and3.cases) auto

lemma or3_True [simp]: "(or3 x y = Some True) = (x = Some True \<or> y = Some True)"
  by (cases "(x, y)" rule: or3.cases) auto

section \<open>The duration conditions\<close>

text \<open>
  Claim C5. With \<^verbatim>\<open>preferred_duration_category\<close> \<^verbatim>\<open>short\<close>, \<^verbatim>\<open>medium\<close> or \<^verbatim>\<open>long\<close> the handler
  adds exactly one condition, and a row satisfies it exactly when: for \<^verbatim>\<open>short\<close>, it is a
  movie with a runtime below 60 or a series with exactly 1 season; for \<^verbatim>\<open>medium\<close>, a movie
  with a runtime from 60 to 120 inclusive or a series with 2 to 4 seasons inclusive; for
  \<^verbatim>\<open>long\<close>, a movie with a runtime above 120 or a series with more than 4 seasons. An absent
  runtime or season count satisfies none of them.
\<close>

theorem duration_bucket_predicate:
  "(\<exists>c. whereClauses (filter_by_duration (a\<lparr>preferred_duration_category := ''short''\<rparr>) b)
          = whereClauses b @ [c] \<and>
        (\<forall>ps r. (eval ps r c = Some True) =
           (c_content_type (r_c r) = ''movie'' \<and>
              (\<exists>d. c_duration_minutes (r_c r) = Some d \<and> d < 60) \<or>
            c_content_type (r_c r) = ''tv_show'' \<and> c_number_of_seasons (r_c r) = Some 1))) \<and>
   (\<exists>c. whereClauses (filter_by_duration (a\<lparr>preferred_duration_category := ''medium''\<rparr>) b)
          = whereClauses b @ [c] \<and>
        (\<forall>ps r. (eval ps r c = Some True) =
           (c_content_type (r_c r) = ''movie'' \<and>
              (\<exists>d. c_duration_minutes (r_c r) = Some d \<and> 60 \<le> d \<and> d \<le> 120) \<or>
            c_content_type (r_c r) = ''tv_show'' \<and>
              (\<exists>n. c_number_of_seasons (r_c r) = Some n \<and> 2 \<le> n \<and> n \<le> 4)))) \<and>
   (\<exists>c. whereClauses (filter_by_duration (a\<lparr>preferred_duration_category := ''long''\<rparr>) b)
          = whereClauses b @ [c] \<and>
        (\<forall>ps r. (eval ps r c = Some True) =
           (c_content_type (r_c r) = ''movie'' \<and>
              (\<exists>d. c_duration_minutes (r_c r) = Some d \<and> d > 120) \<or>
            c_content_type (r_c r) = ''tv_show'' \<and>
              (\<exists>n. c_number_of_seasons (r_c r) = Some n \<and> n > 4))))"
proof (intro conjI)
  show "\<exists>c. whereClauses (filter_by_duration (a\<lparr>preferred_duration_category := ''short''\<rparr>) b)
          = whereClauses b @ [c] \<and>
        (\<forall>ps r. (eval ps r c = Some True) =
           (c_content_type (r_c r) = ''movie'' \<and>
              (\<exists>d. c_duration_minutes (r_c r) = Some d \<and> d < 60) \<or>
            c_content_type (r_c r) = ''tv_show'' \<and> c_number_of_seasons (r_c r) = Some 1))"
    by (auto simp: filter_by_duration_def durationCondition_def push_clause_def
             split: option.splits)
  show "\<exists>c. whereClauses (filter_by_duration (a\<lparr>preferred_duration_category := ''medium''\<rparr>) b)
          = whereClauses b @ [c] \<and>
        (\<forall>ps r. (eval ps r c = Some True) =
           (c_content_type (r_c r) = ''movie'' \<and>
              (\<exists>d. c_duration_minutes (r_c r) = Some d \<and> 60 \<le> d \<and> d \<le> 120) \<or>
            c_content_type (r_c r) = ''tv_show'' \<and>
              (\<exists>n. c_number_of_seasons (r_c r) = Some n \<and> 2 \<le> n \<and> n \<le> 4)))"
    by (auto simp: filter_by_duration_def durationCondition_def push_clause_def
             split: option.splits)
  show "\<exists>c. whereClauses (filter_by_duration (a\<lparr>preferred_duration_category := ''long''\<rparr>) b)
          = whereClauses b @ [c] \<and>
        (\<forall>ps r. (eval ps r c = Some True) =
           (c_content_type (r_c r) = ''movie'' \<and>
              (\<exists>d. c_duration_minutes (r_c r) = Some d \<and> d > 120) \<or>
            c_content_type (r_c r) = ''tv_show'' \<and>
              (\<exists>n. c_number_of_seasons (r_c r) = Some n \<and> n > 4)))"
    by (auto simp: filter_by_duration_def durationCondition_def push_clause_def
             split: option.splits)
qed

section \<open>Parameters appended after the conditions were built\<close>

lemma param_append: "1 \<le> n \<Longrightarrow> n \<le> length ps \<Longrightarrow> param (ps @ xs) n = param ps n"
  by (auto simp: param_def nth_append)

lemma operand_value_append:
  "list_all (\<lambda>n. 1 \<le> n \<and> n \<le> length ps) (operand_params x)
     \<Longrightarrow> operand_value (ps @ xs) r x = operand_value ps r x"
  by (cases x) (simp_all add: param_append)

lemma operand_values_append:
  "list_all (\<lambda>n. 1 \<le> n \<and> n \<le> length ps) (concat (map operand_params vs))
     \<Longrightarrow> map (operand_value (ps @ xs) r) vs = map (operand_value ps r) vs"
  by (induction vs) (simp_all add: operand_value_append)

lemma eval_append:
  "list_all (\<lambda>n. 1 \<le> n \<and> n \<le> length ps) (cond_params c)
     \<Longrightarrow> eval (ps @ xs) r c = eval ps r c"
  by (induction c) (simp_all add: operand_value_append operand_values_append)

lemma passes_append:
  "list_all (\<lambda>n. 1 \<le> n \<and> n \<le> length ps) (concat (map cond_params cs))
     \<Longrightarrow> passes cs (ps @ xs) r = passes cs ps r"
  by (induction cs) (simp_all add: passes_def eval_append)

lemma typed_with_params: "(n, ty) \<in> set (typed_with a b) \<Longrightarrow> n \<in> set (operand_params b)"
  by (cases "(a, b)" rule: typed_with.cases) auto

lemma param_types_params: "(n, ty) \<in> set (param_types c) \<Longrightarrow> n \<in> set (cond_params c)"
  by (induction c) (auto dest: typed_with_params)

lemma bind_ok_append:
  assumes "bind_ok cs ps"
  shows "bind_ok cs (ps @ xs)"
proof -
  have range: "\<forall>n \<in> set (concat (map cond_params cs)). 1 \<le> n \<and> n \<le> length ps"
    using assms by (simp add: bind_ok_def list_all_iff)
  have acc: "\<forall>(n, ty) \<in> set (concat (map param_types cs)). accepts ty (param ps n)"
    using assms by (simp add: bind_ok_def list_all_iff)
  have "accepts ty (param (ps @ xs) n)" if "(n, ty) \<in> set (concat (map param_types cs))" for n ty
  proof -
    from that obtain c where c: "c \<in> set cs" "(n, ty) \<in> set (param_types c)" by auto
    then have "n \<in> set (concat (map cond_params cs))"
      using param_types_params by fastforce
    with range have "1 \<le> n \<and> n \<le> length ps" by blast
    then have "param (ps @ xs) n = param ps n" by (simp add: param_append)
    with acc that show ?thesis by auto
  qed
  moreover have "\<forall>n \<in> set (concat (map cond_params cs)). 1 \<le> n \<and> n \<le> length (ps @ xs)"
    using range by (auto intro: trans_le_add1)
  ultimately show ?thesis
    unfolding bind_ok_def list_all_iff by blast
qed

lemma matching_append: "bind_ok cs ps \<Longrightarrow> matching s cs (ps @ xs) = matching s cs ps"
  by (simp add: matching_def bind_ok_def passes_append cong: filter_cong)

lemma sorted_groups_append:
  "bind_ok cs ps \<Longrightarrow> sorted_groups eo s cs (ps @ xs) = sorted_groups eo s cs ps"
  by (simp add: sorted_groups_def matching_append)

section \<open>The handler, unfolded\<close>

lemma run_page_pushed:
  assumes "bind_ok cs ps"
  shows "run_page eo s cs (Suc (length ps)) (Suc (Suc (length ps))) (ps @ [IntV l, IntV k]) =
           (if l < 0 \<or> \<not> int8 l \<or> k < 0 \<or> \<not> int8 k then Inl InternalServerError
            else Inr (take (nat l) (drop (nat k) (sorted_groups eo s cs ps))))"
proof -
  have p1: "param (ps @ [IntV l, IntV k]) (Suc (length ps)) = IntV l"
    by (simp add: param_def nth_append)
  have p2: "param (ps @ [IntV l, IntV k]) (Suc (Suc (length ps))) = IntV k"
    by (simp add: param_def nth_append)
  show ?thesis
    using bind_ok_append [OF assms, of "[IntV l, IntV k]"]
          sorted_groups_append [OF assms, of eo s "[IntV l, IntV k]"]
    by (auto simp: run_page_def p1 p2 limit_offset_def)
qed

lemma handler_Inr_iff:
  "handler P Y eo s rb = Inr res \<longleftrightarrow>
     (\<exists>b. build P (destructure Y rb) = Inr b \<and>
          bind_ok (whereClauses b) (queryParams b) \<and>
          0 \<le> page_size (destructure Y rb) \<and> int8 (page_size (destructure Y rb)) \<and>
          0 \<le> (page (destructure Y rb) - 1) * page_size (destructure Y rb) \<and>
          int8 ((page (destructure Y rb) - 1) * page_size (destructure Y rb)) \<and>
          res = response_of eo s (destructure Y rb) b)"
proof (cases "build P (destructure Y rb)")
  case (Inl e)
  then show ?thesis by (simp add: handler_def)
next
  case (Inr b)
  show ?thesis
  proof (cases "bind_ok (whereClauses b) (queryParams b)")
    case True
    then show ?thesis
      using Inr by (auto simp: handler_def Let_def run_count_def run_page_pushed response_of_def)
  next
    case False
    then show ?thesis
      using Inr by (simp add: handler_def Let_def run_count_def)
  qed
qed

section \<open>Grouping\<close>

lemma concat_map_singleton: "(\<forall>x\<in>set xs. g x = [h x]) \<Longrightarrow> concat (map g xs) = map h xs"
  by (induction xs) simp_all

lemma filter_hd_satisfies:
  assumes "filter Q rs = r # rest"
  shows "Q r \<and> r \<in> set rs"
proof -
  have "r \<in> set (filter Q rs)" by (simp add: assms)
  then show ?thesis by simp
qed

lemma group_by_uid_uids:
  "map (\<lambda>g. c_uid (row_content g)) (group_by_uid le rs)
     = remdups (map (\<lambda>r. c_uid (r_c r)) rs)"
proof -
  let ?G = "\<lambda>u. case filter (\<lambda>r. c_uid (r_c r) = u) rs of
                   [] \<Rightarrow> []
                 | r # rest \<Rightarrow>
                     [\<lparr>row_content = r_c r,
                       row_genres =
                         json_agg_distinct (genre_object_le le) (genre_objects (r # rest)),
                       row_available_on_services =
                         json_agg_distinct (service_object_le le)
                           (service_objects (r # rest))\<rparr>]"
  have one: "map (\<lambda>g. c_uid (row_content g)) (?G u) = [u]"
    if "u \<in> set (remdups (map (\<lambda>r. c_uid (r_c r)) rs))" for u
  proof (cases "filter (\<lambda>r. c_uid (r_c r) = u) rs")
    case Nil
    with that show ?thesis by (auto simp: filter_empty_conv)
  next
    case (Cons r rest)
    then show ?thesis using filter_hd_satisfies [OF Cons] by simp
  qed
  have "map (\<lambda>g. c_uid (row_content g)) (group_by_uid le rs)
          = concat (map (\<lambda>u. map (\<lambda>g. c_uid (row_content g)) (?G u))
                      (remdups (map (\<lambda>r. c_uid (r_c r)) rs)))"
    by (simp add: group_by_uid_def map_concat comp_def)
  also have "\<dots> = map (\<lambda>u. u) (remdups (map (\<lambda>r. c_uid (r_c r)) rs))"
    by (rule concat_map_singleton) (use one in blast)
  finally show ?thesis by simp
qed

lemma matching_uids:
  "set (map (\<lambda>r. c_uid (r_c r)) (matching s cs ps))
     = {u. \<exists>r\<in>set (joined s). c_uid (r_c r) = u \<and> passes cs ps r}"
  by (auto simp: matching_def)

section \<open>The meaning of the built conditions\<close>

lemma or3_Some: "or3 (Some p) (Some q) = Some (p \<or> q)"
  by (cases p; cases q) simp_all

lemma compare_Null: "compare opr Null v = None"
  by (cases opr; cases v) simp_all

lemma in3_text: "in3 (TextV x) (map TextV vs) = Some (x \<in> set vs)"
  by (induction vs) (auto simp: in3_def or3_Some)

lemma in3_Null: "in3 Null vs = (if vs = [] then Some False else None)"
proof (induction vs)
  case Nil
  show ?case by (simp add: in3_def)
next
  case (Cons v vs)
  have "in3 Null (v # vs) = or3 None (in3 Null vs)"
    by (simp add: in3_def compare_Null)
  then show ?case using Cons by (cases vs) simp_all
qed

lemma accepts_TText: "accepts TText v"
  by (cases v) simp_all

lemma param_pushed: "i < length vs \<Longrightarrow> param (ps @ vs) (Suc (length ps + i)) = vs ! i"
  by (simp add: param_def nth_append)

lemma in3_bound_text: "(in3 (TextV x) (map bound_text es) = Some True) = (Some x \<in> set es)"
proof (induction es)
  case Nil
  show ?case by (simp add: in3_def)
next
  case (Cons e es)
  have "(compare EQ (TextV x) (bound_text e) = Some True) = (e = Some x)"
    by (cases e) (auto simp: bound_text_def)
  moreover have "in3 (TextV x) (map bound_text (e # es))
                   = or3 (compare EQ (TextV x) (bound_text e)) (in3 (TextV x) (map bound_text es))"
    by (simp add: in3_def)
  ultimately show ?case using Cons by auto
qed

lemma placeholders_pushed:
  "length vs = k \<Longrightarrow>
   placeholders (push_params vs b) k
     = map (\<lambda>i. Param (Suc (length (queryParams b) + i))) [0..<k]"
  by (simp add: placeholders_def push_params_def)

lemma placeholder_values:
  "map (operand_value (ps @ vs) r) (map (\<lambda>i. Param (Suc (length ps + i))) [0..<length vs]) = vs"
  by (rule nth_equalityI) (simp_all add: param_pushed)

lemma placeholder_params:
  "concat (map operand_params (map (\<lambda>i. Param (Suc (length ps + i))) [0..<k]))
     = map (\<lambda>i. Suc (length ps + i)) [0..<k]"
  by (induction k) simp_all

lemma placeholder_types:
  "concat (map (typed_with (Col c)) (map (\<lambda>i. Param (Suc (length ps + i))) [0..<k]))
     = map (\<lambda>i. (Suc (length ps + i), column_type c)) [0..<k]"
  by (induction k) simp_all

subsection \<open>One push\<close>

lemma bind_ok_Cons_append:
  "bind_ok (cs @ [c]) ps = (bind_ok cs ps \<and> bind_ok [c] ps)"
  by (auto simp: bind_ok_def)

lemma bind_ok_pushed:
  assumes "list_all (\<lambda>n. 1 \<le> n \<and> n \<le> length ps) (concat (map cond_params cs))"
  shows "bind_ok cs (ps @ vs) = bind_ok cs ps"
proof
  assume "bind_ok cs ps"
  then show "bind_ok cs (ps @ vs)" by (rule bind_ok_append)
next
  assume r: "bind_ok cs (ps @ vs)"
  have "accepts ty (param ps n)" if "(n, ty) \<in> set (concat (map param_types cs))" for n ty
  proof -
    from that obtain c where c: "c \<in> set cs" "(n, ty) \<in> set (param_types c)" by auto
    then have "n \<in> set (concat (map cond_params cs))"
      using param_types_params by fastforce
    with assms have "1 \<le> n \<and> n \<le> length ps" by (auto simp: list_all_iff)
    then have "param (ps @ vs) n = param ps n" by (simp add: param_append)
    moreover have "accepts ty (param (ps @ vs) n)"
      using r that by (auto simp: bind_ok_def list_all_iff)
    ultimately show ?thesis by simp
  qed
  with assms show "bind_ok cs ps"
    unfolding bind_ok_def list_all_iff by blast
qed

lemma push_well_bound:
  assumes "well_bound b"
    and "list_all (\<lambda>n. 1 \<le> n \<and> n \<le> length (queryParams b) + length vs) (cond_params c)"
  shows "well_bound (push_clause c (push_params vs b))"
  using assms
  by (auto simp: well_bound_def push_clause_def push_params_def list_all_iff
           intro: trans_le_add1)

lemma push_passes:
  assumes "well_bound b"
  shows "passes (whereClauses (push_clause c (push_params vs b)))
           (queryParams (push_clause c (push_params vs b))) r
         = (passes (whereClauses b) (queryParams b) r \<and>
            eval (queryParams b @ vs) r c = Some True)"
  using assms passes_append [of "queryParams b" "whereClauses b" vs r]
  by (auto simp: well_bound_def push_clause_def push_params_def passes_def)

lemma push_bind_ok:
  assumes "well_bound b"
  shows "bind_ok (whereClauses (push_clause c (push_params vs b)))
           (queryParams (push_clause c (push_params vs b)))
         = (bind_ok (whereClauses b) (queryParams b) \<and> bind_ok [c] (queryParams b @ vs))"
  using assms bind_ok_pushed [of "queryParams b" "whereClauses b" vs]
  by (simp add: well_bound_def push_clause_def push_params_def bind_ok_Cons_append)


lemma push_meaning:
  assumes wb: "well_bound b"
    and step: "b' = (if g then push_clause c (push_params vs b) else b)"
    and range: "g \<Longrightarrow> list_all (\<lambda>n. 1 \<le> n \<and> n \<le> length (queryParams b) + length vs) (cond_params c)"
    and sat: "g \<Longrightarrow> (eval (queryParams b @ vs) r c = Some True) = sat"
    and nsat: "\<not> g \<Longrightarrow> sat"
    and bind: "g \<Longrightarrow> bind_ok [c] (queryParams b @ vs) = extra"
    and nbind: "\<not> g \<Longrightarrow> extra"
  shows "well_bound b' \<and>
         passes (whereClauses b') (queryParams b') r
           = (passes (whereClauses b) (queryParams b) r \<and> sat) \<and>
         bind_ok (whereClauses b') (queryParams b')
           = (bind_ok (whereClauses b) (queryParams b) \<and> extra)"
proof (intro conjI)
  show "well_bound b'"
    using wb range by (cases g) (simp_all add: step push_well_bound)
  show "passes (whereClauses b') (queryParams b') r
           = (passes (whereClauses b) (queryParams b) r \<and> sat)"
    using sat nsat by (cases g) (simp_all add: step push_passes [OF wb])
  show "bind_ok (whereClauses b') (queryParams b')
           = (bind_ok (whereClauses b) (queryParams b) \<and> extra)"
    using bind nbind by (cases g) (simp_all add: step push_bind_ok [OF wb])
qed

lemma param_pushed_1: "param (ps @ v # vs) (Suc (length ps)) = v"
  by (simp add: param_def nth_append)

lemma param_pushed_2: "param (ps @ v # w # vs) (Suc (Suc (length ps))) = w"
  by (simp add: param_def nth_append)

lemma in_list_eval:
  assumes "length vs = k"
  shows "eval (ps @ vs) r (In (Col c) (map (\<lambda>i. Param (Suc (length ps + i))) [0..<k]))
         = in3 (column_value r c) vs"
  using placeholder_values [of ps vs r] assms by auto

lemma in_list_bind:
  assumes "length vs = k" and "column_type c = TText"
  shows "bind_ok [In (Col c) (map (\<lambda>i. Param (Suc (length ps + i))) [0..<k])] (ps @ vs)"
    and "bind_ok [NotIn (Col c) (map (\<lambda>i. Param (Suc (length ps + i))) [0..<k])] (ps @ vs)"
  using assms
  by (auto simp: bind_ok_def placeholder_params placeholder_types list_all_iff accepts_TText)

lemma in_list_range:
  assumes "length vs = k"
  shows "list_all (\<lambda>n. 1 \<le> n \<and> n \<le> length ps + length vs)
           (cond_params (In (Col c) (map (\<lambda>i. Param (Suc (length ps + i))) [0..<k])))"
    and "list_all (\<lambda>n. 1 \<le> n \<and> n \<le> length ps + length vs)
           (cond_params (NotIn (Col c) (map (\<lambda>i. Param (Suc (length ps + i))) [0..<k])))"
  using assms by (auto simp: placeholder_params list_all_iff)

subsection \<open>The blocks, one by one\<close>

lemma filter_by_content_type_meaning:
  assumes "well_bound b"
  shows "well_bound (filter_by_content_type a b) \<and>
         passes (whereClauses (filter_by_content_type a b))
           (queryParams (filter_by_content_type a b)) r
         = (passes (whereClauses b) (queryParams b) r \<and> sat_content_type a r) \<and>
         bind_ok (whereClauses (filter_by_content_type a b))
           (queryParams (filter_by_content_type a b))
         = (bind_ok (whereClauses b) (queryParams b) \<and> True)"
proof (rule push_meaning [OF assms, where g = "preferred_content_type a \<noteq> ''both''"
         and vs = "[TextV (preferred_content_type a)]"
         and c = "Cmp (Col Content_type) EQ (Param (Suc (length (queryParams b))))"],
       goal_cases)
  case 1 show ?case by (simp add: filter_by_content_type_def Let_def push_params_def)
next
  case 2 show ?case by simp
next
  case 3 then show ?case by (auto simp: param_pushed_1 sat_content_type_def)
next
  case 4 then show ?case by (simp add: sat_content_type_def)
next
  case 5 show ?case by (simp add: bind_ok_def param_pushed_1)
next
  case 6 show ?case by simp
qed

lemma filter_by_release_year_meaning:
  assumes "well_bound b"
  shows "well_bound (filter_by_release_year a b) \<and>
         passes (whereClauses (filter_by_release_year a b))
           (queryParams (filter_by_release_year a b)) r
         = (passes (whereClauses b) (queryParams b) r \<and> sat_release_year a r) \<and>
         bind_ok (whereClauses (filter_by_release_year a b))
           (queryParams (filter_by_release_year a b))
         = (bind_ok (whereClauses b) (queryParams b) \<and> years_fit a)"
proof (rule push_meaning [OF assms, where g = "min_release_year a \<noteq> 0 \<and> max_release_year a \<noteq> 0"
         and vs = "[IntV (min_release_year a), IntV (max_release_year a)]"
         and c = "Between (Col Release_year) (Param (Suc (length (queryParams b))))
                    (Param (Suc (Suc (length (queryParams b)))))"],
       goal_cases)
  case 1 show ?case by (simp add: filter_by_release_year_def Let_def push_params_def)
next
  case 2 show ?case by simp
next
  case 3 then show ?case
    by (cases "c_release_year (r_c r)")
       (simp_all add: param_pushed_1 param_pushed_2 sat_release_year_def)
next
  case 4 then show ?case by (auto simp: sat_release_year_def)
next
  case 5 then show ?case
    by (simp add: bind_ok_def param_pushed_1 param_pushed_2 years_fit_def)
next
  case 6 then show ?case by (auto simp: years_fit_def)
qed

lemma filter_by_minimum_rating_meaning:
  assumes "well_bound b"
  shows "well_bound (filter_by_minimum_rating a b) \<and>
         passes (whereClauses (filter_by_minimum_rating a b))
           (queryParams (filter_by_minimum_rating a b)) r
         = (passes (whereClauses b) (queryParams b) r \<and> sat_minimum_rating a r) \<and>
         bind_ok (whereClauses (filter_by_minimum_rating a b))
           (queryParams (filter_by_minimum_rating a b))
         = (bind_ok (whereClauses b) (queryParams b) \<and> rating_fits a)"
proof (rule push_meaning [OF assms, where g = "min_rating a > 0"
         and vs = "[DecV (min_rating a), DecV (min_rating a)]"
         and c = "Paren (Or (Cmp (Col Imdb_rating) GE (Param (Suc (length (queryParams b)))))
                            (Cmp (Col Rotten_tomatoes_score) GE
                               (Param (Suc (Suc (length (queryParams b)))))))"],
       goal_cases)
  case 1 show ?case by (simp add: filter_by_minimum_rating_def Let_def push_params_def)
next
  case 2 show ?case by simp
next
  case 3 then show ?case
    by (cases "c_imdb_rating (r_c r)"; cases "c_rotten_tomatoes_score (r_c r)")
       (simp_all add: param_pushed_1 param_pushed_2 sat_minimum_rating_def)
next
  case 4 then show ?case by (simp add: sat_minimum_rating_def)
next
  case 5 then show ?case
    by (simp add: bind_ok_def param_pushed_1 param_pushed_2 rating_fits_def)
next
  case 6 then show ?case by (simp add: rating_fits_def)
qed


lemma eval_NotIn: "eval ps r (NotIn x vs) = not3 (eval ps r (In x vs))"
  by simp

lemma filter_by_parental_rating_Inr:
  "(\<exists>b'. filter_by_parental_rating P a b = Inr b') = (parental_count P a \<noteq> None)"
  by (auto simp: filter_by_parental_rating_def parental_count_def Let_def split: parsed.splits)

lemma filter_by_parental_rating_meaning:
  assumes wb: "well_bound b" and ok: "filter_by_parental_rating P a b = Inr b'"
  shows "well_bound b' \<and>
         passes (whereClauses b') (queryParams b') r
         = (passes (whereClauses b) (queryParams b) r \<and> sat_parental_rating P a r) \<and>
         bind_ok (whereClauses b') (queryParams b')
         = (bind_ok (whereClauses b) (queryParams b) \<and> True)"
proof (cases "parental_rating_filter_json a \<noteq> [] \<and> parental_rating_filter_json a \<noteq> ''[]''")
  case False
  then have "b' = b" using ok by (auto simp: filter_by_parental_rating_def)
  with False wb show ?thesis by (auto simp: sat_parental_rating_def)
next
  case True
  show ?thesis
  proof (cases "\<exists>es. P (parental_rating_filter_json a) = Array_value es")
    case False
    then have "b' = b"
      using ok True
      by (auto simp: filter_by_parental_rating_def split: parsed.splits if_splits)
    with False True wb show ?thesis
      by (auto simp: sat_parental_rating_def split: parsed.splits)
  next
    case array: True
    then obtain es where es: "P (parental_rating_filter_json a) = Array_value es" by blast
    show ?thesis
    proof (rule push_meaning [OF wb, where g = "es \<noteq> []" and vs = "map bound_text es"
             and c = "In (Col Parental_rating)
                        (map (\<lambda>i. Param (Suc (length (queryParams b) + i))) [0..<length es])"],
           goal_cases)
      case 1 show ?case
        using ok True es
        by (auto simp: filter_by_parental_rating_def Let_def placeholders_pushed)
    next
      case 2 show ?case by (rule in_list_range) simp
    next
      case 3 then show ?case
        using True es
        by (simp add: in_list_eval in3_bound_text in3_Null sat_parental_rating_def
              split: option.splits del: eval.simps)
    next
      case 4 then show ?case using True es by (simp add: sat_parental_rating_def)
    next
      case 5 show ?case by (simp add: in_list_bind)
    next
      case 6 show ?case by simp
    qed
  qed
qed

lemma durationCondition_params: "durationCondition category = Some c \<Longrightarrow> cond_params c = []"
  by (auto simp: durationCondition_def split: if_splits)

lemma eval_no_params: "cond_params c = [] \<Longrightarrow> eval ps r c = eval [] r c"
  using eval_append [of "[]" c ps r] by simp

lemma push_no_params: "push_params [] b = b"
  by (simp add: push_params_def)

lemma filter_by_duration_meaning:
  assumes wb: "well_bound b"
  shows "well_bound (filter_by_duration a b) \<and>
         passes (whereClauses (filter_by_duration a b)) (queryParams (filter_by_duration a b)) r
         = (passes (whereClauses b) (queryParams b) r \<and> sat_duration a r) \<and>
         bind_ok (whereClauses (filter_by_duration a b)) (queryParams (filter_by_duration a b))
         = (bind_ok (whereClauses b) (queryParams b) \<and> True)"
proof (cases "durationCondition (preferred_duration_category a)")
  case None
  then have "filter_by_duration a b = b" by (simp add: filter_by_duration_def)
  with None wb show ?thesis by (simp add: sat_duration_def)
next
  case (Some c)
  note np = durationCondition_params [OF Some]
  show ?thesis
  proof (rule push_meaning [OF wb, where g = "preferred_duration_category a \<noteq> ''any''"
           and vs = "[]" and c = "Paren c"], goal_cases)
    case 1 show ?case by (simp add: filter_by_duration_def Some push_no_params)
  next
    case 2 show ?case by (simp add: np)
  next
    case 3 then show ?case
      using eval_no_params [OF np, of "queryParams b" r] by (simp add: sat_duration_def Some)
  next
    case 4 then show ?case by (simp add: sat_duration_def)
  next
    case 5 show ?case
      using param_types_params [of _ _ c] np by (auto simp: bind_ok_def list_all_iff)
  next
    case 6 show ?case by simp
  qed
qed

lemma filter_by_genres_meaning:
  assumes wb: "well_bound b"
  shows "well_bound (filter_by_genres a b) \<and>
         passes (whereClauses (filter_by_genres a b)) (queryParams (filter_by_genres a b)) r
         = (passes (whereClauses b) (queryParams b) r \<and> sat_genres a r) \<and>
         bind_ok (whereClauses (filter_by_genres a b)) (queryParams (filter_by_genres a b))
         = (bind_ok (whereClauses b) (queryParams b) \<and> True)"
proof (cases "genre_uids a")
  case None
  then have "filter_by_genres a b = b" by (simp add: filter_by_genres_def)
  with None wb show ?thesis by (simp add: sat_genres_def)
next
  case (Some uids)
  show ?thesis
  proof (rule push_meaning [OF wb, where g = "uids \<noteq> []" and vs = "map TextV uids"
           and c = "In (Col G_uid)
                      (map (\<lambda>i. Param (Suc (length (queryParams b) + i))) [0..<length uids])"],
         goal_cases)
    case 1 show ?case by (simp add: filter_by_genres_def Some Let_def placeholders_pushed)
  next
    case 2 show ?case by (rule in_list_range) simp
  next
    case 3 then show ?case
      by (simp add: in_list_eval in3_text in3_Null sat_genres_def Some
            split: option.splits del: eval.simps)
  next
    case 4 then show ?case by (simp add: sat_genres_def Some)
  next
    case 5 show ?case by (simp add: in_list_bind)
  next
    case 6 show ?case by simp
  qed
qed

lemma exclude_by_genres_meaning:
  assumes wb: "well_bound b"
  shows "well_bound (exclude_by_genres a b) \<and>
         passes (whereClauses (exclude_by_genres a b)) (queryParams (exclude_by_genres a b)) r
         = (passes (whereClauses b) (queryParams b) r \<and> sat_excluded_genres a r) \<and>
         bind_ok (whereClauses (exclude_by_genres a b)) (queryParams (exclude_by_genres a b))
         = (bind_ok (whereClauses b) (queryParams b) \<and> True)"
proof (rule push_meaning [OF wb, where g = "excluded_genre_uids a \<noteq> []"
         and vs = "map TextV (excluded_genre_uids a)"
         and c = "NotIn (Col G_uid)
                    (map (\<lambda>i. Param (Suc (length (queryParams b) + i)))
                       [0..<length (excluded_genre_uids a)])"],
       goal_cases)
  case 1 show ?case by (simp add: exclude_by_genres_def Let_def placeholders_pushed)
next
  case 2 show ?case by (rule in_list_range) simp
next
  case 3 then show ?case
    by (simp add: eval_NotIn in_list_eval in3_text in3_Null not3_def sat_excluded_genres_def
          split: option.splits del: eval.simps)
next
  case 4 then show ?case by (simp add: sat_excluded_genres_def)
next
  case 5 show ?case by (simp add: in_list_bind)
next
  case 6 show ?case by simp
qed


lemma filter_by_streaming_services_meaning:
  assumes wb: "well_bound b"
  shows "well_bound (filter_by_streaming_services a b) \<and>
         passes (whereClauses (filter_by_streaming_services a b))
           (queryParams (filter_by_streaming_services a b)) r
         = (passes (whereClauses b) (queryParams b) r \<and> sat_streaming_services a r) \<and>
         bind_ok (whereClauses (filter_by_streaming_services a b))
           (queryParams (filter_by_streaming_services a b))
         = (bind_ok (whereClauses b) (queryParams b) \<and> True)"
proof (cases "streaming_service_uids a")
  case None
  then have "filter_by_streaming_services a b = b"
    by (simp add: filter_by_streaming_services_def)
  with None wb show ?thesis by (simp add: sat_streaming_services_def)
next
  case (Some uids)
  show ?thesis
  proof (rule push_meaning [OF wb, where g = "uids \<noteq> []" and vs = "map TextV uids"
           and c = "In (Col SS_uid)
                      (map (\<lambda>i. Param (Suc (length (queryParams b) + i))) [0..<length uids])"],
         goal_cases)
    case 1 show ?case
      by (simp add: filter_by_streaming_services_def Some Let_def placeholders_pushed)
  next
    case 2 show ?case by (rule in_list_range) simp
  next
    case 3 then show ?case
      by (simp add: in_list_eval in3_text in3_Null sat_streaming_services_def Some
            split: option.splits del: eval.simps)
  next
    case 4 then show ?case by (simp add: sat_streaming_services_def Some)
  next
    case 5 show ?case by (simp add: in_list_bind)
  next
    case 6 show ?case by simp
  qed
qed

lemma exclude_streaming_services_meaning:
  assumes wb: "well_bound b"
  shows "well_bound (exclude_streaming_services a b) \<and>
         passes (whereClauses (exclude_streaming_services a b))
           (queryParams (exclude_streaming_services a b)) r
         = (passes (whereClauses b) (queryParams b) r \<and> sat_excluded_services a r) \<and>
         bind_ok (whereClauses (exclude_streaming_services a b))
           (queryParams (exclude_streaming_services a b))
         = (bind_ok (whereClauses b) (queryParams b) \<and> True)"
proof (rule push_meaning [OF wb, where g = "excluded_service_uids a \<noteq> []"
         and vs = "map TextV (excluded_service_uids a)"
         and c = "NotIn (Col SS_uid)
                    (map (\<lambda>i. Param (Suc (length (queryParams b) + i)))
                       [0..<length (excluded_service_uids a)])"],
       goal_cases)
  case 1 show ?case by (simp add: exclude_streaming_services_def Let_def placeholders_pushed)
next
  case 2 show ?case by (rule in_list_range) simp
next
  case 3 then show ?case
    by (simp add: eval_NotIn in_list_eval in3_text in3_Null not3_def
          sat_excluded_services_def split: option.splits del: eval.simps)
next
  case 4 then show ?case by (simp add: sat_excluded_services_def)
next
  case 5 show ?case by (simp add: in_list_bind)
next
  case 6 show ?case by simp
qed

subsection \<open>All blocks together\<close>

lemma build_Inr:
  "(\<exists>b. build P a = Inr b) = (parental_count P a \<noteq> None)"
proof -
  have same: "parental_count P a \<noteq> None \<longleftrightarrow>
              (\<exists>b'. filter_by_parental_rating P a
                      (filter_by_minimum_rating a (filter_by_release_year a
                         (filter_by_content_type a \<lparr>queryParams = [], whereClauses = []\<rparr>)))
                    = Inr b')"
    by (simp only: filter_by_parental_rating_Inr)
  show ?thesis
    unfolding same by (auto simp: build_def Let_def split: sum.splits)
qed

lemma build_meaning:
  assumes "build P a = Inr b"
  shows "well_bound b \<and>
         passes (whereClauses b) (queryParams b) r
         = (sat_content_type a r \<and> sat_release_year a r \<and> sat_minimum_rating a r \<and>
            sat_parental_rating P a r \<and> sat_duration a r \<and> sat_genres a r \<and>
            sat_excluded_genres a r \<and> sat_streaming_services a r \<and>
            sat_excluded_services a r) \<and>
         bind_ok (whereClauses b) (queryParams b) = (years_fit a \<and> rating_fits a)"
proof -
  let ?b0 = "\<lparr>queryParams = [], whereClauses = []\<rparr>"
  let ?b1 = "filter_by_content_type a ?b0"
  let ?b2 = "filter_by_release_year a ?b1"
  let ?b3 = "filter_by_minimum_rating a ?b2"
  from assms obtain b4 where b4: "filter_by_parental_rating P a ?b3 = Inr b4"
    and b: "b = exclude_streaming_services a (filter_by_streaming_services a
                  (exclude_by_genres a (filter_by_genres a (filter_by_duration a b4))))"
    by (auto simp: build_def Let_def split: sum.splits)
  let ?b5 = "filter_by_duration a b4"
  let ?b6 = "filter_by_genres a ?b5"
  let ?b7 = "exclude_by_genres a ?b6"
  let ?b8 = "filter_by_streaming_services a ?b7"
  have m0: "well_bound ?b0" "passes (whereClauses ?b0) (queryParams ?b0) r"
    "bind_ok (whereClauses ?b0) (queryParams ?b0)"
    by (simp_all add: well_bound_def passes_def bind_ok_def)
  note m1 = filter_by_content_type_meaning [OF m0(1), of a r]
  note m2 = filter_by_release_year_meaning [OF conjunct1 [OF m1], of a r]
  note m3 = filter_by_minimum_rating_meaning [OF conjunct1 [OF m2], of a r]
  note m4 = filter_by_parental_rating_meaning [OF conjunct1 [OF m3] b4, of r]
  note m5 = filter_by_duration_meaning [OF conjunct1 [OF m4], of a r]
  note m6 = filter_by_genres_meaning [OF conjunct1 [OF m5], of a r]
  note m7 = exclude_by_genres_meaning [OF conjunct1 [OF m6], of a r]
  note m8 = filter_by_streaming_services_meaning [OF conjunct1 [OF m7], of a r]
  note m9 = exclude_streaming_services_meaning [OF conjunct1 [OF m8], of a r]
  show ?thesis
    unfolding b using m0 m1 m2 m3 m4 m5 m6 m7 m8 m9 by simp
qed

section \<open>Where the returned rows come from\<close>

lemma group_by_uid_content:
  assumes "g \<in> set (group_by_uid le rs)"
  shows "\<exists>r\<in>set rs. row_content g = r_c r"
proof -
  from assms obtain u where
    g: "g \<in> set (case filter (\<lambda>r. c_uid (r_c r) = u) rs of
                    [] \<Rightarrow> []
                  | r # rest \<Rightarrow>
                      [\<lparr>row_content = r_c r,
                        row_genres =
                          json_agg_distinct (genre_object_le le) (genre_objects (r # rest)),
                        row_available_on_services =
                          json_agg_distinct (service_object_le le)
                            (service_objects (r # rest))\<rparr>])"
    by (auto simp: group_by_uid_def)
  show ?thesis
  proof (cases "filter (\<lambda>r. c_uid (r_c r) = u) rs")
    case Nil
    with g show ?thesis by simp
  next
    case (Cons r rest)
    with g filter_hd_satisfies [OF Cons] show ?thesis by auto
  qed
qed

lemma mset_sorted_groups:
  assumes "\<forall>xs. mset (eo xs) = mset xs"
  shows "mset (sorted_groups eo s cs ps) = mset (group_by_uid (collation s) (matching s cs ps))"
  using assms by (simp add: sorted_groups_def)

lemma set_sorted_groups:
  assumes "\<forall>xs. mset (eo xs) = mset xs"
  shows "set (sorted_groups eo s cs ps) = set (group_by_uid (collation s) (matching s cs ps))"
  using mset_sorted_groups [OF assms] by (rule mset_eq_setD)

lemma sorted_sorted_groups: "sorted (map order_key (sorted_groups eo s cs ps))"
  by (simp add: sorted_groups_def)

lemma sorted_groups_uids:
  assumes "\<forall>xs. mset (eo xs) = mset xs"
  shows "distinct (map (\<lambda>g. c_uid (row_content g)) (sorted_groups eo s cs ps))"
    and "set (map (\<lambda>g. c_uid (row_content g)) (sorted_groups eo s cs ps))
           = {u. \<exists>r\<in>set (joined s). c_uid (r_c r) = u \<and> passes cs ps r}"
proof -
  have m: "mset (map (\<lambda>g. c_uid (row_content g)) (sorted_groups eo s cs ps))
             = mset (map (\<lambda>g. c_uid (row_content g))
                       (group_by_uid (collation s) (matching s cs ps)))"
    using mset_sorted_groups [OF assms, of s cs ps] by (metis mset_map)
  show "distinct (map (\<lambda>g. c_uid (row_content g)) (sorted_groups eo s cs ps))"
    using mset_eq_imp_distinct_iff [OF m] by (simp add: group_by_uid_uids)
  show "set (map (\<lambda>g. c_uid (row_content g)) (sorted_groups eo s cs ps))
           = {u. \<exists>r\<in>set (joined s). c_uid (r_c r) = u \<and> passes cs ps r}"
    using mset_eq_setD [OF m] by (simp only: group_by_uid_uids set_remdups matching_uids)
qed

lemma recommendation_row:
  assumes perm: "\<forall>xs. mset (eo xs) = mset xs"
    and h: "handler P Y eo s rb = Inr res"
    and x: "x \<in> set (recommendations res)"
  shows "\<exists>b r. build P (destructure Y rb) = Inr b \<and> r \<in> set (joined s) \<and>
               passes (whereClauses b) (queryParams b) r \<and> rec_content x = r_c r"
proof -
  from h obtain b where b: "build P (destructure Y rb) = Inr b"
    and res: "res = response_of eo s (destructure Y rb) b"
    unfolding handler_Inr_iff by blast
  from x obtain g where g: "g \<in> set (sorted_groups eo s (whereClauses b) (queryParams b))"
    and xg: "x = format_row g"
    unfolding res response_of_def by (auto dest: in_set_takeD in_set_dropD)
  from g have "g \<in> set (group_by_uid (collation s)
                           (matching s (whereClauses b) (queryParams b)))"
    by (simp add: set_sorted_groups [OF perm])
  then obtain r where "r \<in> set (matching s (whereClauses b) (queryParams b))"
    and "row_content g = r_c r"
    using group_by_uid_content by blast
  with b xg show ?thesis
    by (auto simp: matching_def format_row_def)
qed

section \<open>The count\<close>



section \<open>Pagination does not change the count\<close>

lemma destructure_page:
  "destructure Y (rb\<lparr>body_page := p, body_page_size := q\<rparr>)
     = (destructure Y rb)\<lparr>page := or_default p 1, page_size := or_default q 20\<rparr>"
  by (simp add: destructure_def)

lemmas step_defs =
  filter_by_content_type_def filter_by_release_year_def filter_by_minimum_rating_def
  filter_by_parental_rating_def filter_by_duration_def filter_by_genres_def
  exclude_by_genres_def filter_by_streaming_services_def exclude_streaming_services_def

lemma steps_page:
  "filter_by_content_type (a\<lparr>page := x, page_size := y\<rparr>) = filter_by_content_type a"
  "filter_by_release_year (a\<lparr>page := x, page_size := y\<rparr>) = filter_by_release_year a"
  "filter_by_minimum_rating (a\<lparr>page := x, page_size := y\<rparr>) = filter_by_minimum_rating a"
  "filter_by_parental_rating P (a\<lparr>page := x, page_size := y\<rparr>) = filter_by_parental_rating P a"
  "filter_by_duration (a\<lparr>page := x, page_size := y\<rparr>) = filter_by_duration a"
  "filter_by_genres (a\<lparr>page := x, page_size := y\<rparr>) = filter_by_genres a"
  "exclude_by_genres (a\<lparr>page := x, page_size := y\<rparr>) = exclude_by_genres a"
  "filter_by_streaming_services (a\<lparr>page := x, page_size := y\<rparr>) = filter_by_streaming_services a"
  "exclude_streaming_services (a\<lparr>page := x, page_size := y\<rparr>) = exclude_streaming_services a"
  by (rule ext, simp add: step_defs Let_def cong: if_cong)+

lemma build_page:
  "build P (a\<lparr>page := x, page_size := y\<rparr>) = build P a"
  by (simp add: build_def steps_page split: sum.splits)

text \<open>
  Claim C10. For a fixed store, two requests that differ only in \<^verbatim>\<open>page\<close> and
  \<^verbatim>\<open>page_size\<close> and are both answered with 200 carry the same \<^verbatim>\<open>total_results\<close>.
\<close>

theorem total_results_independent_of_pagination:
  assumes "handler JSON_parse current_year engine_order s req_body = Inr res"
    and "handler JSON_parse current_year engine_order' s
           (req_body\<lparr>body_page := p, body_page_size := q\<rparr>) = Inr res'"
  shows "total_results res' = total_results res"
  using assms
  by (auto simp: handler_Inr_iff destructure_page build_page response_of_def)

theorem total_results_independent_of_pagination_witness:
  "\<exists>res res'.
     handler no_JSON 2026 (\<lambda>xs. xs) store_tie empty_body = Inr res \<and>
     handler no_JSON 2026 rev store_tie
       (empty_body\<lparr>body_page := Some 2, body_page_size := Some 1\<rparr>) = Inr res' \<and>
     recommendations res \<noteq> recommendations res' \<and>
     total_results res' = total_results res \<and> total_results res = 2"
proof -
  have h: "handler no_JSON 2026 (\<lambda>xs. xs) store_tie empty_body
             = Inr \<lparr>recommendations =
                      [\<lparr>rec_content = movie ''a'' 2000 (Some 100) (Some 70) (Some 80),
                        rec_genres = [], rec_available_on_services = []\<rparr>,
                       \<lparr>rec_content = movie ''b'' 2001 (Some 110) (Some 70) (Some 80),
                        rec_genres = [], rec_available_on_services = []\<rparr>],
                    total_results = 2, res_page = 1, res_page_size = 20\<rparr>"
    by code_simp
  have h': "handler no_JSON 2026 rev store_tie
              (empty_body\<lparr>body_page := Some 2, body_page_size := Some 1\<rparr>)
             = Inr \<lparr>recommendations =
                      [\<lparr>rec_content = movie ''a'' 2000 (Some 100) (Some 70) (Some 80),
                        rec_genres = [], rec_available_on_services = []\<rparr>],
                    total_results = 2, res_page = 2, res_page_size = 1\<rparr>"
    by code_simp
  from total_results_independent_of_pagination [OF h h'] show ?thesis
    using h h' by auto
qed

section \<open>No validation\<close>

lemma status_200: "(status r = 200) = (\<exists>res. r = Inr res)"
  by (cases r) (simp_all add: status_def)

lemma handler_200:
  "(status (handler P Y eo s rb) = 200) =
     (parental_count P (destructure Y rb) \<noteq> None \<and>
      years_fit (destructure Y rb) \<and> rating_fits (destructure Y rb) \<and>
      0 \<le> page_size (destructure Y rb) \<and> int8 (page_size (destructure Y rb)) \<and>
      0 \<le> (page (destructure Y rb) - 1) * page_size (destructure Y rb) \<and>
      int8 ((page (destructure Y rb) - 1) * page_size (destructure Y rb)))"
proof -
  have bound: "bind_ok (whereClauses b) (queryParams b)
                 = (years_fit (destructure Y rb) \<and> rating_fits (destructure Y rb))"
    if "build P (destructure Y rb) = Inr b" for b
    using build_meaning [OF that] by simp
  show ?thesis
    unfolding status_200 handler_Inr_iff build_Inr [symmetric] using bound by auto
qed

lemma count_query_runs:
  assumes "handler P Y eo s rb = Inr res"
  shows "\<exists>b. build P (destructure Y (rb\<lparr>body_page := p, body_page_size := q\<rparr>)) = Inr b \<and>
             run_count s (whereClauses b) (queryParams b) = Inr (total_results res)"
proof -
  from assms obtain b where b: "build P (destructure Y rb) = Inr b"
    and ok: "bind_ok (whereClauses b) (queryParams b)"
    and res: "res = response_of eo s (destructure Y rb) b"
    unfolding handler_Inr_iff by blast
  have "build P (destructure Y (rb\<lparr>body_page := p, body_page_size := q\<rparr>)) = Inr b"
    by (simp add: destructure_page build_page b)
  moreover have "run_count s (whereClauses b) (queryParams b) = Inr (total_results res)"
    by (simp add: run_count_def ok res response_of_def)
  ultimately show ?thesis by blast
qed

lemma page_irrelevant:
  "parental_count P (a\<lparr>page := x, page_size := y\<rparr>) = parental_count P a"
  "years_fit (a\<lparr>page := x, page_size := y\<rparr>) = years_fit a"
  "rating_fits (a\<lparr>page := x, page_size := y\<rparr>) = rating_fits a"
  by (simp_all add: parental_count_def years_fit_def rating_fits_def)

lemma safe_is_int8: "0 \<le> n \<Longrightarrow> n \<le> 9007199254740991 \<Longrightarrow> int8 n"
  by (simp add: int8_def)

theorem validation_error_counterexample:
  "status (handler no_JSON 2026 (\<lambda>xs. xs) store_tie
             (empty_body\<lparr>body_page_size := Some 1000\<rparr>)) = 200 \<and>
   status (handler no_JSON 2026 (\<lambda>xs. xs) store_tie
             (empty_body\<lparr>body_page_size := Some 0\<rparr>)) = 200 \<and>
   status (handler no_JSON 2026 (\<lambda>xs. xs) store_tie
             (empty_body\<lparr>body_min_release_year := Some 2020,
                          body_max_release_year := Some 1990\<rparr>)) = 200 \<and>
   status (handler no_JSON 2026 (\<lambda>xs. xs) store_tie
             (empty_body\<lparr>body_genre_uids := Some ['''']\<rparr>)) = 200 \<and>
   status (handler no_JSON 2026 (\<lambda>xs. xs) store_tie
             (empty_body\<lparr>body_page := Some 0\<rparr>)) = 500"
  by code_simp

text \<open>
  Claim C3, amended. The handler validates nothing and never answers with a validation
  error: its answers are 200 and 500 only. A request with a negative \<^verbatim>\<open>page_size\<close> or a
  negative offset \<^verbatim>\<open>(page - 1) * page_size\<close> (a \<^verbatim>\<open>page\<close> below 1 with a positive
  \<^verbatim>\<open>page_size\<close>) is answered 500. When a request is answered 200, then whatever \<^verbatim>\<open>page\<close> and
  \<^verbatim>\<open>page_size\<close> are put in its place the count query still runs and succeeds, so that 500
  comes from the page query, after the count query. And none of the four conditions is a
  reason to fail: a request answered 200 is still answered 200
  \<^item> with any \<^verbatim>\<open>page\<close> from 1 and any \<^verbatim>\<open>page_size\<close> from 0 (0 and the sizes above 100
    included), as long as \<^verbatim>\<open>page\<close>, \<^verbatim>\<open>page_size\<close> and the offset are at most \<open>2^53 - 1\<close>,
  \<^item> with any year bounds that are 32-bit integers, the minimum above the maximum included,
  \<^item> with the empty identifier added to any of its four uid lists.
\<close>

theorem requests_are_not_validated:
  "(status (handler JSON_parse current_year engine_order s req_body) = 200 \<or>
    status (handler JSON_parse current_year engine_order s req_body) = 500) \<and>
   (page_size (destructure current_year req_body) < 0 \<or>
    (page (destructure current_year req_body) - 1) *
      page_size (destructure current_year req_body) < 0 \<longrightarrow>
      status (handler JSON_parse current_year engine_order s req_body) = 500) \<and>
   (handler JSON_parse current_year engine_order s req_body = Inr res \<longrightarrow>
      (\<forall>p q. \<exists>b.
         build JSON_parse
           (destructure current_year (req_body\<lparr>body_page := p, body_page_size := q\<rparr>)) = Inr b \<and>
         run_count s (whereClauses b) (queryParams b) = Inr (total_results res)) \<and>
      (\<forall>p q. 1 \<le> p \<and> p \<le> 9007199254740991 \<and> 0 \<le> q \<and> q \<le> 9007199254740991 \<and>
             (p - 1) * q \<le> 9007199254740991 \<longrightarrow>
         status (handler JSON_parse current_year engine_order s
                   (req_body\<lparr>body_page := Some p, body_page_size := Some q\<rparr>)) = 200) \<and>
      (\<forall>lo hi. int4 lo \<and> int4 hi \<longrightarrow>
         status (handler JSON_parse current_year engine_order s
                   (req_body\<lparr>body_min_release_year := Some lo,
                              body_max_release_year := Some hi\<rparr>)) = 200) \<and>
      status (handler JSON_parse current_year engine_order s
                (req_body\<lparr>body_genre_uids :=
                             Some (or_default (body_genre_uids req_body) [] @ [''''])\<rparr>)) = 200 \<and>
      status (handler JSON_parse current_year engine_order s
                (req_body\<lparr>body_excluded_genre_uids :=
                             Some (or_default (body_excluded_genre_uids req_body) [] @ [''''])\<rparr>))
        = 200 \<and>
      status (handler JSON_parse current_year engine_order s
                (req_body\<lparr>body_streaming_service_uids :=
                             Some (or_default (body_streaming_service_uids req_body) [] @ [''''])\<rparr>))
        = 200 \<and>
      status (handler JSON_parse current_year engine_order s
                (req_body\<lparr>body_excluded_service_uids :=
                             Some (or_default (body_excluded_service_uids req_body) [] @ [''''])\<rparr>))
        = 200)"
proof (intro conjI impI allI)
  let ?h = "handler JSON_parse current_year engine_order s req_body"
  show "status ?h = 200 \<or> status ?h = 500"
    by (cases ?h) (simp_all add: status_def)
  show "status ?h = 500"
    if "page_size (destructure current_year req_body) < 0 \<or>
        (page (destructure current_year req_body) - 1) *
          page_size (destructure current_year req_body) < 0"
  proof -
    from that have "status ?h \<noteq> 200" unfolding handler_200 by auto
    then show ?thesis by (cases ?h) (simp_all add: status_def)
  qed
next
  fix p q
  assume "handler JSON_parse current_year engine_order s req_body = Inr res"
  then show "\<exists>b. build JSON_parse
                 (destructure current_year (req_body\<lparr>body_page := p, body_page_size := q\<rparr>))
               = Inr b \<and>
               run_count s (whereClauses b) (queryParams b) = Inr (total_results res)"
    by (rule count_query_runs)
next
  fix p q :: int
  assume "handler JSON_parse current_year engine_order s req_body = Inr res"
    and "1 \<le> p \<and> p \<le> 9007199254740991 \<and> 0 \<le> q \<and> q \<le> 9007199254740991 \<and>
         (p - 1) * q \<le> 9007199254740991"
  then have ok: "status (handler JSON_parse current_year engine_order s req_body) = 200"
    and q: "0 \<le> q" "int8 q" "0 \<le> (p - 1) * q" "int8 ((p - 1) * q)"
    by (simp_all add: status_def safe_is_int8)
  from ok q show "status (handler JSON_parse current_year engine_order s
                   (req_body\<lparr>body_page := Some p, body_page_size := Some q\<rparr>)) = 200"
    unfolding handler_200 destructure_page
    by (simp add: or_default_def page_irrelevant)
next
  fix lo hi :: int
  assume "handler JSON_parse current_year engine_order s req_body = Inr res"
    and "int4 lo \<and> int4 hi"
  then have ok: "status (handler JSON_parse current_year engine_order s req_body) = 200"
    and y: "int4 lo" "int4 hi"
    by (simp_all add: status_def)
  have same: "parental_count JSON_parse (destructure current_year
            (req_body\<lparr>body_min_release_year := Some lo,
                              body_max_release_year := Some hi\<rparr>))
          = parental_count JSON_parse (destructure current_year req_body)"
       "rating_fits (destructure current_year
            (req_body\<lparr>body_min_release_year := Some lo,
                              body_max_release_year := Some hi\<rparr>))
          = rating_fits (destructure current_year req_body)"
       "page (destructure current_year
            (req_body\<lparr>body_min_release_year := Some lo,
                              body_max_release_year := Some hi\<rparr>))
          = page (destructure current_year req_body)"
       "page_size (destructure current_year
            (req_body\<lparr>body_min_release_year := Some lo,
                              body_max_release_year := Some hi\<rparr>))
          = page_size (destructure current_year req_body)"
    by (simp_all add: destructure_def parental_count_def rating_fits_def)
  from y have "years_fit (destructure current_year
            (req_body\<lparr>body_min_release_year := Some lo,
                              body_max_release_year := Some hi\<rparr>))"
    by (simp add: years_fit_def destructure_def or_default_def)
  with ok show "status (handler JSON_parse current_year engine_order s
                   (req_body\<lparr>body_min_release_year := Some lo,
                              body_max_release_year := Some hi\<rparr>)) = 200"
    unfolding handler_200 same by simp
next
  assume "handler JSON_parse current_year engine_order s req_body = Inr res"
  then have ok: "status (handler JSON_parse current_year engine_order s req_body) = 200"
    by (simp add: status_def)
  have "parental_count JSON_parse (destructure current_year
            (req_body\<lparr>body_genre_uids :=
                             Some (or_default (body_genre_uids req_body) [] @ [''''])\<rparr>))
          = parental_count JSON_parse (destructure current_year req_body)"
       "years_fit (destructure current_year
            (req_body\<lparr>body_genre_uids :=
                             Some (or_default (body_genre_uids req_body) [] @ [''''])\<rparr>))
          = years_fit (destructure current_year req_body)"
       "rating_fits (destructure current_year
            (req_body\<lparr>body_genre_uids :=
                             Some (or_default (body_genre_uids req_body) [] @ [''''])\<rparr>))
          = rating_fits (destructure current_year req_body)"
       "page (destructure current_year
            (req_body\<lparr>body_genre_uids :=
                             Some (or_default (body_genre_uids req_body) [] @ [''''])\<rparr>))
          = page (destructure current_year req_body)"
       "page_size (destructure current_year
            (req_body\<lparr>body_genre_uids :=
                             Some (or_default (body_genre_uids req_body) [] @ [''''])\<rparr>))
          = page_size (destructure current_year req_body)"
    by (simp_all add: destructure_def parental_count_def years_fit_def rating_fits_def)
  with ok show "status (handler JSON_parse current_year engine_order s
                (req_body\<lparr>body_genre_uids :=
                             Some (or_default (body_genre_uids req_body) [] @ [''''])\<rparr>)) = 200"
    unfolding handler_200 by simp
  have "parental_count JSON_parse (destructure current_year
            (req_body\<lparr>body_excluded_genre_uids :=
                             Some (or_default (body_excluded_genre_uids req_body) [] @ [''''])\<rparr>))
          = parental_count JSON_parse (destructure current_year req_body)"
       "years_fit (destructure current_year
            (req_body\<lparr>body_excluded_genre_uids :=
                             Some (or_default (body_excluded_genre_uids req_body) [] @ [''''])\<rparr>))
          = years_fit (destructure current_year req_body)"
       "rating_fits (destructure current_year
            (req_body\<lparr>body_excluded_genre_uids :=
                             Some (or_default (body_excluded_genre_uids req_body) [] @ [''''])\<rparr>))
          = rating_fits (destructure current_year req_body)"
       "page (destructure current_year
            (req_body\<lparr>body_excluded_genre_uids :=
                             Some (or_default (body_excluded_genre_uids req_body) [] @ [''''])\<rparr>))
          = page (destructure current_year req_body)"
       "page_size (destructure current_year
            (req_body\<lparr>body_excluded_genre_uids :=
                             Some (or_default (body_excluded_genre_uids req_body) [] @ [''''])\<rparr>))
          = page_size (destructure current_year req_body)"
    by (simp_all add: destructure_def parental_count_def years_fit_def rating_fits_def)
  with ok show "status (handler JSON_parse current_year engine_order s
                (req_body\<lparr>body_excluded_genre_uids :=
                             Some (or_default (body_excluded_genre_uids req_body) [] @ [''''])\<rparr>)) = 200"
    unfolding handler_200 by simp
  have "parental_count JSON_parse (destructure current_year
            (req_body\<lparr>body_streaming_service_uids :=
                             Some (or_default (body_streaming_service_uids req_body) [] @ [''''])\<rparr>))
          = parental_count JSON_parse (destructure current_year req_body)"
       "years_fit (destructure current_year
            (req_body\<lparr>body_streaming_service_uids :=
                             Some (or_default (body_streaming_service_uids req_body) [] @ [''''])\<rparr>))
          = years_fit (destructure current_year req_body)"
       "rating_fits (destructure current_year
            (req_body\<lparr>body_streaming_service_uids :=
                             Some (or_default (body_streaming_service_uids req_body) [] @ [''''])\<rparr>))
          = rating_fits (destructure current_year req_body)"
       "page (destructure current_year
            (req_body\<lparr>body_streaming_service_uids :=
                             Some (or_default (body_streaming_service_uids req_body) [] @ [''''])\<rparr>))
          = page (destructure current_year req_body)"
       "page_size (destructure current_year
            (req_body\<lparr>body_streaming_service_uids :=
                             Some (or_default (body_streaming_service_uids req_body) [] @ [''''])\<rparr>))
          = page_size (destructure current_year req_body)"
    by (simp_all add: destructure_def parental_count_def years_fit_def rating_fits_def)
  with ok show "status (handler JSON_parse current_year engine_order s
                (req_body\<lparr>body_streaming_service_uids :=
                             Some (or_default (body_streaming_service_uids req_body) [] @ [''''])\<rparr>)) = 200"
    unfolding handler_200 by simp
  have "parental_count JSON_parse (destructure current_year
            (req_body\<lparr>body_excluded_service_uids :=
                             Some (or_default (body_excluded_service_uids req_body) [] @ [''''])\<rparr>))
          = parental_count JSON_parse (destructure current_year req_body)"
       "years_fit (destructure current_year
            (req_body\<lparr>body_excluded_service_uids :=
                             Some (or_default (body_excluded_service_uids req_body) [] @ [''''])\<rparr>))
          = years_fit (destructure current_year req_body)"
       "rating_fits (destructure current_year
            (req_body\<lparr>body_excluded_service_uids :=
                             Some (or_default (body_excluded_service_uids req_body) [] @ [''''])\<rparr>))
          = rating_fits (destructure current_year req_body)"
       "page (destructure current_year
            (req_body\<lparr>body_excluded_service_uids :=
                             Some (or_default (body_excluded_service_uids req_body) [] @ [''''])\<rparr>))
          = page (destructure current_year req_body)"
       "page_size (destructure current_year
            (req_body\<lparr>body_excluded_service_uids :=
                             Some (or_default (body_excluded_service_uids req_body) [] @ [''''])\<rparr>))
          = page_size (destructure current_year req_body)"
    by (simp_all add: destructure_def parental_count_def years_fit_def rating_fits_def)
  with ok show "status (handler JSON_parse current_year engine_order s
                (req_body\<lparr>body_excluded_service_uids :=
                             Some (or_default (body_excluded_service_uids req_body) [] @ [''''])\<rparr>)) = 200"
    unfolding handler_200 by simp
qed

theorem requests_are_not_validated_witness:
  "status (handler no_JSON 2026 (\<lambda>xs. xs) store_tie empty_body) = 200 \<and>
   status (handler no_JSON 2026 (\<lambda>xs. xs) store_tie
             (empty_body\<lparr>body_page := Some 3, body_page_size := Some 500\<rparr>)) = 200 \<and>
   status (handler no_JSON 2026 (\<lambda>xs. xs) store_tie
             (empty_body\<lparr>body_min_release_year := Some 2020,
                          body_max_release_year := Some 1990\<rparr>)) = 200 \<and>
   status (handler no_JSON 2026 (\<lambda>xs. xs) store_tie
             (empty_body\<lparr>body_genre_uids := Some ['''']\<rparr>)) = 200 \<and>
   status (handler no_JSON 2026 (\<lambda>xs. xs) store_tie
             (empty_body\<lparr>body_page := Some 0\<rparr>)) = 500 \<and>
   (\<exists>b. build no_JSON (destructure 2026 (empty_body\<lparr>body_page := Some 0\<rparr>)) = Inr b \<and>
        run_count store_tie (whereClauses b) (queryParams b) = Inr 2)"
proof -
  have h: "handler no_JSON 2026 (\<lambda>xs. xs) store_tie empty_body
             = Inr \<lparr>recommendations =
                      [\<lparr>rec_content = movie ''a'' 2000 (Some 100) (Some 70) (Some 80),
                        rec_genres = [], rec_available_on_services = []\<rparr>,
                       \<lparr>rec_content = movie ''b'' 2001 (Some 110) (Some 70) (Some 80),
                        rec_genres = [], rec_available_on_services = []\<rparr>],
                    total_results = 2, res_page = 1, res_page_size = 20\<rparr>"
    by code_simp
  note t = requests_are_not_validated
             [of no_JSON 2026 "\<lambda>xs. xs" store_tie empty_body
                 "\<lparr>recommendations =
                      [\<lparr>rec_content = movie ''a'' 2000 (Some 100) (Some 70) (Some 80),
                        rec_genres = [], rec_available_on_services = []\<rparr>,
                       \<lparr>rec_content = movie ''b'' 2001 (Some 110) (Some 70) (Some 80),
                        rec_genres = [], rec_available_on_services = []\<rparr>],
                    total_results = 2, res_page = 1, res_page_size = 20\<rparr>"]
  have e: "body_genre_uids empty_body = None" by (simp add: empty_body_def)
  have z: "page_size (destructure 2026 (empty_body\<lparr>body_page := Some 0\<rparr>)) = 20"
          "page (destructure 2026 (empty_body\<lparr>body_page := Some 0\<rparr>)) = 0"
    by (simp_all add: destructure_def or_default_def empty_body_def)
  have s0: "status (handler no_JSON 2026 (\<lambda>xs. xs) store_tie empty_body) = 200"
    by (simp add: h status_def)
  from t h have pages: "\<forall>p q. 1 \<le> p \<and> p \<le> 9007199254740991 \<and> 0 \<le> q \<and> q \<le> 9007199254740991 \<and>
             (p - 1) * q \<le> 9007199254740991 \<longrightarrow>
         status (handler no_JSON 2026 (\<lambda>xs. xs) store_tie
                   (empty_body\<lparr>body_page := Some p, body_page_size := Some q\<rparr>)) = 200"
    by blast
  from pages [rule_format, where p = 3 and q = 500]
  have s1: "status (handler no_JSON 2026 (\<lambda>xs. xs) store_tie
             (empty_body\<lparr>body_page := Some 3, body_page_size := Some 500\<rparr>)) = 200"
    by simp
  from t h have years: "\<forall>lo hi. int4 lo \<and> int4 hi \<longrightarrow>
         status (handler no_JSON 2026 (\<lambda>xs. xs) store_tie
                   (empty_body\<lparr>body_min_release_year := Some lo,
                                body_max_release_year := Some hi\<rparr>)) = 200"
    by blast
  from years [rule_format, where lo = 2020 and hi = 1990]
  have s2: "status (handler no_JSON 2026 (\<lambda>xs. xs) store_tie
             (empty_body\<lparr>body_min_release_year := Some 2020,
                          body_max_release_year := Some 1990\<rparr>)) = 200"
    by (simp add: int4_def)
  from t h have "status (handler no_JSON 2026 (\<lambda>xs. xs) store_tie
                (empty_body\<lparr>body_genre_uids :=
                             Some (or_default (body_genre_uids empty_body) [] @ [''''])\<rparr>)) = 200"
    by blast
  then have s3: "status (handler no_JSON 2026 (\<lambda>xs. xs) store_tie
             (empty_body\<lparr>body_genre_uids := Some ['''']\<rparr>)) = 200"
    by (simp add: e or_default_def)
  from requests_are_not_validated
         [of no_JSON 2026 "\<lambda>xs. xs" store_tie "empty_body\<lparr>body_page := Some 0\<rparr>"]
  have s4: "status (handler no_JSON 2026 (\<lambda>xs. xs) store_tie
             (empty_body\<lparr>body_page := Some 0\<rparr>)) = 500"
    unfolding z by simp
  from t h have "\<forall>p q. \<exists>b.
         build no_JSON (destructure 2026 (empty_body\<lparr>body_page := p, body_page_size := q\<rparr>))
           = Inr b \<and>
         run_count store_tie (whereClauses b) (queryParams b) = Inr 2"
    by auto
  from this [rule_format, where p = "Some 0" and q = None]
  have s5: "\<exists>b. build no_JSON (destructure 2026 (empty_body\<lparr>body_page := Some 0\<rparr>)) = Inr b \<and>
        run_count store_tie (whereClauses b) (queryParams b) = Inr 2"
    by (simp add: empty_body_def)
  show ?thesis by (intro conjI) (rule s0 s1 s2 s3 s4 s5)+
qed

section \<open>The year range\<close>

theorem year_range_counterexample:
  "handler no_JSON 2026 (\<lambda>xs. xs) store_future
     (empty_body\<lparr>body_min_release_year := Some 0, body_max_release_year := Some 2026\<rparr>)
   = Inr \<lparr>recommendations =
            [\<lparr>rec_content = movie ''next'' 2030 None None None,
              rec_genres = [], rec_available_on_services = []\<rparr>],
          total_results = 1, res_page = 1, res_page_size = 20\<rparr>"
  by code_simp

text \<open>
  Claim C6, amended. The year-range condition is applied exactly when both bounds are
  non-zero, the guard of server.js 514. A joined row is kept by the WHERE clause exactly when
  it satisfies the other criteria of the request and, both bounds being non-zero, its
  release year is present and lies between the minimum and the maximum, both included; when a
  bound is 0 the release year is not looked at. \<^verbatim>\<open>total_results\<close> counts the uids with such a
  row, and the returned page is cut from a sequence that holds each of these uids once and no
  other. The bounds default to 1900 and the current year when the request has none, so the
  answer to a request without a year filter is the answer to the same request with the
  bounds 1900 and the current year.
\<close>

theorem year_range_applied_when_bounds_nonzero:
  assumes "\<forall>xs. mset (engine_order xs) = mset xs"
    and "handler JSON_parse current_year engine_order s req_body = Inr res"
  shows "(\<exists>a b full.
            a = destructure current_year req_body \<and>
            build JSON_parse a = Inr b \<and>
            (\<forall>r. passes (whereClauses b) (queryParams b) r =
                   ((min_release_year a = 0 \<or> max_release_year a = 0 \<or>
                     (\<exists>y. c_release_year (r_c r) = Some y \<and>
                          min_release_year a \<le> y \<and> y \<le> max_release_year a)) \<and>
                    sat_content_type a r \<and> sat_minimum_rating a r \<and>
                    sat_parental_rating JSON_parse a r \<and> sat_duration a r \<and>
                    sat_genres a r \<and> sat_excluded_genres a r \<and>
                    sat_streaming_services a r \<and> sat_excluded_services a r)) \<and>
            total_results res =
              card {u. \<exists>r\<in>set (joined s). c_uid (r_c r) = u \<and>
                         passes (whereClauses b) (queryParams b) r} \<and>
            distinct (map (\<lambda>g. c_uid (row_content g)) full) \<and>
            set (map (\<lambda>g. c_uid (row_content g)) full) =
              {u. \<exists>r\<in>set (joined s). c_uid (r_c r) = u \<and>
                    passes (whereClauses b) (queryParams b) r} \<and>
            recommendations res =
              map format_row
                (take (nat (page_size a)) (drop (nat ((page a - 1) * page_size a)) full))) \<and>
         handler JSON_parse current_year engine_order s
           (req_body\<lparr>body_min_release_year := None, body_max_release_year := None\<rparr>)
         = handler JSON_parse current_year engine_order s
             (req_body\<lparr>body_min_release_year := Some 1900,
                        body_max_release_year := Some current_year\<rparr>)"
proof
  let ?a = "destructure current_year req_body"
  from assms(2) obtain b where b: "build JSON_parse ?a = Inr b"
    and res: "res = response_of engine_order s ?a b"
    unfolding handler_Inr_iff by blast
  let ?cs = "whereClauses b" and ?ps = "queryParams b"
  let ?full = "sorted_groups engine_order s ?cs ?ps"
  have year: "sat_release_year ?a r =
                (min_release_year ?a = 0 \<or> max_release_year ?a = 0 \<or>
                 (\<exists>y. c_release_year (r_c r) = Some y \<and>
                      min_release_year ?a \<le> y \<and> y \<le> max_release_year ?a))" for r
    by (cases "c_release_year (r_c r)") (simp_all add: sat_release_year_def)
  have meaning: "passes ?cs ?ps r =
                   ((min_release_year ?a = 0 \<or> max_release_year ?a = 0 \<or>
                     (\<exists>y. c_release_year (r_c r) = Some y \<and>
                          min_release_year ?a \<le> y \<and> y \<le> max_release_year ?a)) \<and>
                    sat_content_type ?a r \<and> sat_minimum_rating ?a r \<and>
                    sat_parental_rating JSON_parse ?a r \<and> sat_duration ?a r \<and>
                    sat_genres ?a r \<and> sat_excluded_genres ?a r \<and>
                    sat_streaming_services ?a r \<and> sat_excluded_services ?a r)" for r
    using build_meaning [OF b, of r] unfolding year by blast
  have total: "total_results res =
                 card {u. \<exists>r\<in>set (joined s). c_uid (r_c r) = u \<and> passes ?cs ?ps r}"
    by (simp add: res response_of_def length_remdups_card_conv matching_uids
          del: set_map)
  have page: "recommendations res =
                map format_row
                  (take (nat (page_size ?a)) (drop (nat ((page ?a - 1) * page_size ?a)) ?full))"
    by (simp add: res response_of_def)
  from b meaning total sorted_groups_uids [OF assms(1), of s ?cs ?ps] page
  show "\<exists>a b full.
            a = destructure current_year req_body \<and>
            build JSON_parse a = Inr b \<and>
            (\<forall>r. passes (whereClauses b) (queryParams b) r =
                   ((min_release_year a = 0 \<or> max_release_year a = 0 \<or>
                     (\<exists>y. c_release_year (r_c r) = Some y \<and>
                          min_release_year a \<le> y \<and> y \<le> max_release_year a)) \<and>
                    sat_content_type a r \<and> sat_minimum_rating a r \<and>
                    sat_parental_rating JSON_parse a r \<and> sat_duration a r \<and>
                    sat_genres a r \<and> sat_excluded_genres a r \<and>
                    sat_streaming_services a r \<and> sat_excluded_services a r)) \<and>
            total_results res =
              card {u. \<exists>r\<in>set (joined s). c_uid (r_c r) = u \<and>
                         passes (whereClauses b) (queryParams b) r} \<and>
            distinct (map (\<lambda>g. c_uid (row_content g)) full) \<and>
            set (map (\<lambda>g. c_uid (row_content g)) full) =
              {u. \<exists>r\<in>set (joined s). c_uid (r_c r) = u \<and>
                    passes (whereClauses b) (queryParams b) r} \<and>
            recommendations res =
              map format_row
                (take (nat (page_size a)) (drop (nat ((page a - 1) * page_size a)) full))"
    by blast
  have "destructure current_year
          (req_body\<lparr>body_min_release_year := None, body_max_release_year := None\<rparr>)
        = destructure current_year
            (req_body\<lparr>body_min_release_year := Some 1900,
                       body_max_release_year := Some current_year\<rparr>)"
    by (simp add: destructure_def or_default_def)
  then show "handler JSON_parse current_year engine_order s
           (req_body\<lparr>body_min_release_year := None, body_max_release_year := None\<rparr>)
         = handler JSON_parse current_year engine_order s
             (req_body\<lparr>body_min_release_year := Some 1900,
                        body_max_release_year := Some current_year\<rparr>)"
    by (simp add: handler_def)
qed

theorem year_range_applied_when_bounds_nonzero_witness:
  "map (\<lambda>c. (c_uid c, c_release_year c)) (content store_years)
     = [(''y1899'', Some 1899), (''y1900'', Some 1900), (''y1950'', Some 1950),
        (''y2026'', Some 2026), (''y2027'', Some 2027), (''undated'', None)] \<and>
   returned_uids (handler no_JSON 2026 (\<lambda>xs. xs) store_years empty_body)
     = [''y1900'', ''y1950'', ''y2026''] \<and>
   returned_uids (handler no_JSON 2026 (\<lambda>xs. xs) store_years
                    (empty_body\<lparr>body_min_release_year := Some 1900,
                                 body_max_release_year := Some 1950\<rparr>))
     = [''y1900'', ''y1950''] \<and>
   returned_uids (handler no_JSON 2026 (\<lambda>xs. xs) store_years
                    (empty_body\<lparr>body_min_release_year := Some 0\<rparr>))
     = [''y1899'', ''y1900'', ''y1950'', ''y2026'', ''y2027'', ''undated''] \<and>
   (\<exists>res a b.
      handler no_JSON 2026 (\<lambda>xs. xs) store_years empty_body = Inr res \<and>
      a = destructure 2026 empty_body \<and> build no_JSON a = Inr b \<and>
      total_results res = 3 \<and>
      total_results res =
        card {u. \<exists>r\<in>set (joined store_years). c_uid (r_c r) = u \<and>
                   passes (whereClauses b) (queryParams b) r}) \<and>
   handler no_JSON 2026 (\<lambda>xs. xs) store_years
     (empty_body\<lparr>body_min_release_year := None, body_max_release_year := None\<rparr>)
   = handler no_JSON 2026 (\<lambda>xs. xs) store_years
       (empty_body\<lparr>body_min_release_year := Some 1900, body_max_release_year := Some 2026\<rparr>)"
proof -
  have c: "map (\<lambda>c. (c_uid c, c_release_year c)) (content store_years)
     = [(''y1899'', Some 1899), (''y1900'', Some 1900), (''y1950'', Some 1950),
        (''y2026'', Some 2026), (''y2027'', Some 2027), (''undated'', None)]"
    by code_simp
  have u: "returned_uids (handler no_JSON 2026 (\<lambda>xs. xs) store_years empty_body)
             = [''y1900'', ''y1950'', ''y2026''] \<and>
           returned_uids (handler no_JSON 2026 (\<lambda>xs. xs) store_years
                    (empty_body\<lparr>body_min_release_year := Some 1900,
                                 body_max_release_year := Some 1950\<rparr>))
             = [''y1900'', ''y1950''] \<and>
           returned_uids (handler no_JSON 2026 (\<lambda>xs. xs) store_years
                    (empty_body\<lparr>body_min_release_year := Some 0\<rparr>))
             = [''y1899'', ''y1900'', ''y1950'', ''y2026'', ''y2027'', ''undated'']"
    by code_simp
  have h: "handler no_JSON 2026 (\<lambda>xs. xs) store_years empty_body
     = Inr \<lparr>recommendations =
              [\<lparr>rec_content = movie ''y1900'' 1900 None None None,
                rec_genres = [], rec_available_on_services = []\<rparr>,
               \<lparr>rec_content = movie ''y1950'' 1950 None None None,
                rec_genres = [], rec_available_on_services = []\<rparr>,
               \<lparr>rec_content = movie ''y2026'' 2026 None None None,
                rec_genres = [], rec_available_on_services = []\<rparr>],
            total_results = 3, res_page = 1, res_page_size = 20\<rparr>"
    by code_simp
  have p: "\<forall>xs::result_row list. mset ((\<lambda>xs. xs) xs) = mset xs" by simp
  from year_range_applied_when_bounds_nonzero [OF p h] c u show ?thesis
    by (auto simp: h)
qed

section \<open>Order and pages\<close>

lemma uminus_option_le:
  "(map_option uminus x \<le> map_option uminus y) = desc_nulls_first (x::int option) y"
  by (cases x; cases y) (simp_all add: desc_nulls_first_def)

lemma uminus_option_eq: "(map_option uminus x = map_option uminus y) = ((x::int option) = y)"
  by (cases x; cases y) simp_all

lemma order_key_le: "(order_key x \<le> order_key y) = ranks_before x y"
  using uminus_option_le uminus_option_eq
  by (auto simp: order_key_def ranks_before_def less_le)

lemma sorted_wrt_sorted_groups: "sorted_wrt ranks_before (sorted_groups eo s cs ps)"
  using sorted_sorted_groups [of eo s cs ps]
  by (simp add: sorted_map order_key_le)

theorem tie_order_counterexample:
  "returned_uids (handler no_JSON 2026 (\<lambda>xs. xs) store_tie empty_body) = [''a'', ''b''] \<and>
   returned_uids (handler no_JSON 2026 rev store_tie empty_body) = [''b'', ''a'']"
  by code_simp

text \<open>
  Claim C4, amended. When the handler answers 200, the returned page is the slice at offset
  \<^verbatim>\<open>(page - 1) * page_size\<close>, of length at most \<^verbatim>\<open>page_size\<close>, of a sequence that holds every
  group once and is sorted by audience rating (\<^verbatim>\<open>rotten_tomatoes_score\<close>) descending, then
  critic rating (\<^verbatim>\<open>imdb_rating\<close>) descending, an absent rating first. Nothing fixes the order
  of two groups that agree on both ratings: it is the engine's, whatever it is.
\<close>

theorem page_is_slice_of_sorted_groups:
  assumes "\<forall>xs. mset (engine_order xs) = mset xs"
    and "handler JSON_parse current_year engine_order s req_body = Inr res"
  shows "\<exists>b full.
           build JSON_parse (destructure current_year req_body) = Inr b \<and>
           mset full = mset (group_by_uid (collation s) (matching s (whereClauses b) (queryParams b))) \<and>
           sorted_wrt ranks_before full \<and>
           recommendations res =
             map format_row
               (take (nat (page_size (destructure current_year req_body)))
                  (drop (nat ((page (destructure current_year req_body) - 1) *
                              page_size (destructure current_year req_body)))
                     full)) \<and>
           length (recommendations res) \<le> nat (page_size (destructure current_year req_body))"
proof -
  from assms(2) obtain b where b: "build JSON_parse (destructure current_year req_body) = Inr b"
    and res: "res = response_of engine_order s (destructure current_year req_body) b"
    unfolding handler_Inr_iff by blast
  let ?full = "sorted_groups engine_order s (whereClauses b) (queryParams b)"
  have "mset ?full = mset (group_by_uid (collation s) (matching s (whereClauses b) (queryParams b)))"
    by (rule mset_sorted_groups [OF assms(1)])
  moreover have "sorted_wrt ranks_before ?full"
    by (rule sorted_wrt_sorted_groups)
  moreover have "recommendations res =
             map format_row
               (take (nat (page_size (destructure current_year req_body)))
                  (drop (nat ((page (destructure current_year req_body) - 1) *
                              page_size (destructure current_year req_body)))
                     ?full))"
    by (simp add: res response_of_def)
  moreover have "length (recommendations res) \<le> nat (page_size (destructure current_year req_body))"
    by (simp add: res response_of_def)
  ultimately show ?thesis using b by blast
qed

theorem page_is_slice_of_sorted_groups_witness:
  "returned_uids (handler no_JSON 2026 rev store_ranked
                    (empty_body\<lparr>body_page := Some 2, body_page_size := Some 2\<rparr>))
     = [''x'', ''w''] \<and>
   returned_uids (handler no_JSON 2026 rev store_ranked empty_body) = [''z'', ''y'', ''x'', ''w''] \<and>
   (\<exists>res b full.
      handler no_JSON 2026 rev store_ranked
        (empty_body\<lparr>body_page := Some 2, body_page_size := Some 2\<rparr>) = Inr res \<and>
      build no_JSON
        (destructure 2026 (empty_body\<lparr>body_page := Some 2, body_page_size := Some 2\<rparr>)) = Inr b \<and>
      mset full = mset (group_by_uid (collation store_ranked) (matching store_ranked (whereClauses b) (queryParams b))) \<and>
      sorted_wrt ranks_before full \<and>
      recommendations res = map format_row (take 2 (drop 2 full)))"
proof -
  have u: "returned_uids (handler no_JSON 2026 rev store_ranked
                    (empty_body\<lparr>body_page := Some 2, body_page_size := Some 2\<rparr>))
             = [''x'', ''w''] \<and>
           returned_uids (handler no_JSON 2026 rev store_ranked empty_body)
             = [''z'', ''y'', ''x'', ''w'']"
    by code_simp
  have h: "handler no_JSON 2026 rev store_ranked
             (empty_body\<lparr>body_page := Some 2, body_page_size := Some 2\<rparr>)
           = Inr \<lparr>recommendations =
                    [\<lparr>rec_content = movie ''x'' 2000 None (Some 70) (Some 90),
                      rec_genres = [], rec_available_on_services = []\<rparr>,
                     \<lparr>rec_content = movie ''w'' 2003 None (Some 99) (Some 50),
                      rec_genres = [], rec_available_on_services = []\<rparr>],
                  total_results = 4, res_page = 2, res_page_size = 2\<rparr>"
    by code_simp
  have p: "\<forall>xs::result_row list. mset (rev xs) = mset xs" by simp
  have a: "page (destructure 2026 (empty_body\<lparr>body_page := Some 2, body_page_size := Some 2\<rparr>)) = 2"
          "page_size (destructure 2026 (empty_body\<lparr>body_page := Some 2, body_page_size := Some 2\<rparr>)) = 2"
    by (simp_all add: destructure_def or_default_def)
  from page_is_slice_of_sorted_groups [OF p h] u h show ?thesis
    unfolding a by auto
qed

section \<open>Pages over tied titles\<close>

text \<open>
  Claim C7, at the failing input. The store holds five titles, \<^verbatim>\<open>t00\<close> to \<^verbatim>\<open>t04\<close>, with the
  same two ratings, and the requests ask for the pages 1 to 5 of size 1. Every page is
  answered 200 with a \<^verbatim>\<open>total_results\<close> of 5. Each page is one more execution of the page query, whose ORDER BY
  (server.js 588 to 589) has no key that tells the five rows apart, so the engine is free to
  hand them over in another order each time. When it hands them over as stored for page 1
  and with the first two exchanged for the later pages, page 1 is \<^verbatim>\<open>t00\<close> and page 2 is
  \<^verbatim>\<open>t00\<close> again, and \<^verbatim>\<open>t01\<close> is on no page. Both orders put every row exactly once.
\<close>

theorem pages_repeat_and_omit_tied_titles:
  "(\<forall>xs::result_row list. mset (swap_first_two xs) = mset xs) \<and>
   map c_uid (content store_five_tied) = [''t00'', ''t01'', ''t02'', ''t03'', ''t04''] \<and>
   map (\<lambda>answer. (status answer, total_results (projr answer)))
     [handler no_JSON 2026 (\<lambda>xs. xs) store_five_tied
        (empty_body\<lparr>body_page := Some 1, body_page_size := Some 1\<rparr>),
      handler no_JSON 2026 swap_first_two store_five_tied
        (empty_body\<lparr>body_page := Some 2, body_page_size := Some 1\<rparr>),
      handler no_JSON 2026 swap_first_two store_five_tied
        (empty_body\<lparr>body_page := Some 3, body_page_size := Some 1\<rparr>),
      handler no_JSON 2026 swap_first_two store_five_tied
        (empty_body\<lparr>body_page := Some 4, body_page_size := Some 1\<rparr>),
      handler no_JSON 2026 swap_first_two store_five_tied
        (empty_body\<lparr>body_page := Some 5, body_page_size := Some 1\<rparr>)]
     = [(200, 5), (200, 5), (200, 5), (200, 5), (200, 5)] \<and>
   map returned_uids
     [handler no_JSON 2026 (\<lambda>xs. xs) store_five_tied
        (empty_body\<lparr>body_page := Some 1, body_page_size := Some 1\<rparr>),
      handler no_JSON 2026 swap_first_two store_five_tied
        (empty_body\<lparr>body_page := Some 2, body_page_size := Some 1\<rparr>),
      handler no_JSON 2026 swap_first_two store_five_tied
        (empty_body\<lparr>body_page := Some 3, body_page_size := Some 1\<rparr>),
      handler no_JSON 2026 swap_first_two store_five_tied
        (empty_body\<lparr>body_page := Some 4, body_page_size := Some 1\<rparr>),
      handler no_JSON 2026 swap_first_two store_five_tied
        (empty_body\<lparr>body_page := Some 5, body_page_size := Some 1\<rparr>)]
     = [[''t00''], [''t00''], [''t02''], [''t03''], [''t04'']]"
proof -
  have perm: "mset (swap_first_two xs) = mset xs" for xs :: "result_row list"
    by (cases xs rule: swap_first_two.cases) simp_all
  have titles: "map c_uid (content store_five_tied)
                  = [''t00'', ''t01'', ''t02'', ''t03'', ''t04'']"
    by code_simp
  have pages: "map (\<lambda>answer. (status answer, total_results (projr answer)))
     [handler no_JSON 2026 (\<lambda>xs. xs) store_five_tied
        (empty_body\<lparr>body_page := Some 1, body_page_size := Some 1\<rparr>),
      handler no_JSON 2026 swap_first_two store_five_tied
        (empty_body\<lparr>body_page := Some 2, body_page_size := Some 1\<rparr>),
      handler no_JSON 2026 swap_first_two store_five_tied
        (empty_body\<lparr>body_page := Some 3, body_page_size := Some 1\<rparr>),
      handler no_JSON 2026 swap_first_two store_five_tied
        (empty_body\<lparr>body_page := Some 4, body_page_size := Some 1\<rparr>),
      handler no_JSON 2026 swap_first_two store_five_tied
        (empty_body\<lparr>body_page := Some 5, body_page_size := Some 1\<rparr>)]
     = [(200, 5), (200, 5), (200, 5), (200, 5), (200, 5)] \<and>
   map returned_uids
     [handler no_JSON 2026 (\<lambda>xs. xs) store_five_tied
        (empty_body\<lparr>body_page := Some 1, body_page_size := Some 1\<rparr>),
      handler no_JSON 2026 swap_first_two store_five_tied
        (empty_body\<lparr>body_page := Some 2, body_page_size := Some 1\<rparr>),
      handler no_JSON 2026 swap_first_two store_five_tied
        (empty_body\<lparr>body_page := Some 3, body_page_size := Some 1\<rparr>),
      handler no_JSON 2026 swap_first_two store_five_tied
        (empty_body\<lparr>body_page := Some 4, body_page_size := Some 1\<rparr>),
      handler no_JSON 2026 swap_first_two store_five_tied
        (empty_body\<lparr>body_page := Some 5, body_page_size := Some 1\<rparr>)]
     = [[''t00''], [''t00''], [''t02''], [''t03''], [''t04'']]"
    by code_simp
  from perm titles pages show ?thesis by blast
qed

section \<open>The query text depends on the shape only\<close>

lemma push_text:
  "length (queryParams (push_clause c (push_params vs b))) = length (queryParams b) + length vs"
  "map render (whereClauses (push_clause c (push_params vs b)))
     = map render (whereClauses b) @ [render c]"
  "length (queryParams (push_params vs b)) = length (queryParams b) + length vs"
  by (simp_all add: push_clause_def push_params_def)

lemma filter_by_content_type_text:
  assumes "length (queryParams b1) = length (queryParams b2)"
    and "map render (whereClauses b1) = map render (whereClauses b2)"
    and "(preferred_content_type a1 \<noteq> ''both'') = (preferred_content_type a2 \<noteq> ''both'')"
  shows "length (queryParams (filter_by_content_type a1 b1))
           = length (queryParams (filter_by_content_type a2 b2)) \<and>
         map render (whereClauses (filter_by_content_type a1 b1))
           = map render (whereClauses (filter_by_content_type a2 b2))"
  using assms by (auto simp: filter_by_content_type_def Let_def push_text)

lemma filter_by_release_year_text:
  assumes "length (queryParams b1) = length (queryParams b2)"
    and "map render (whereClauses b1) = map render (whereClauses b2)"
    and "(min_release_year a1 \<noteq> 0 \<and> max_release_year a1 \<noteq> 0)
           = (min_release_year a2 \<noteq> 0 \<and> max_release_year a2 \<noteq> 0)"
  shows "length (queryParams (filter_by_release_year a1 b1))
           = length (queryParams (filter_by_release_year a2 b2)) \<and>
         map render (whereClauses (filter_by_release_year a1 b1))
           = map render (whereClauses (filter_by_release_year a2 b2))"
  using assms by (auto simp: filter_by_release_year_def Let_def push_text)

lemma filter_by_minimum_rating_text:
  assumes "length (queryParams b1) = length (queryParams b2)"
    and "map render (whereClauses b1) = map render (whereClauses b2)"
    and "(0 < min_rating a1) = (0 < min_rating a2)"
  shows "length (queryParams (filter_by_minimum_rating a1 b1))
           = length (queryParams (filter_by_minimum_rating a2 b2)) \<and>
         map render (whereClauses (filter_by_minimum_rating a1 b1))
           = map render (whereClauses (filter_by_minimum_rating a2 b2))"
  using assms by (auto simp: filter_by_minimum_rating_def Let_def push_text)

lemma placeholders_text:
  assumes "length (queryParams b1) = length (queryParams b2)" and "length us1 = length us2"
  shows "placeholders (push_params (map f1 us1) b1) (length us1)
           = placeholders (push_params (map f2 us2) b2) (length us2)"
  using assms by (simp add: placeholders_pushed)

lemma filter_by_parental_rating_shape:
  assumes "filter_by_parental_rating P a b = Inr c"
  shows "\<exists>prs. parental_count P a = Some (length prs) \<and>
               c = (if prs \<noteq> []
                    then push_clause
                           (In (Col Parental_rating)
                              (placeholders (push_params (map bound_text prs) b) (length prs)))
                           (push_params (map bound_text prs) b)
                    else b)"
proof (cases "parental_rating_filter_json a \<noteq> [] \<and> parental_rating_filter_json a \<noteq> ''[]''")
  case False
  with assms have "parental_count P a = Some (length ([] :: string option list))" and "c = b"
    by (auto simp: filter_by_parental_rating_def parental_count_def)
  then show ?thesis by (intro exI [of _ "[]"]) simp
next
  case True
  show ?thesis
  proof (cases "P (parental_rating_filter_json a)")
    case Throws
    with True assms show ?thesis by (simp add: filter_by_parental_rating_def)
  next
    case Null_value
    with True assms show ?thesis by (simp add: filter_by_parental_rating_def)
  next
    case (String_value chars)
    with True assms have "parental_count P a = Some (length ([] :: string option list))"
      and "c = b"
      by (auto simp: filter_by_parental_rating_def parental_count_def split: if_splits)
    then show ?thesis by (intro exI [of _ "[]"]) simp
  next
    case (Other_value positive)
    with True assms have "parental_count P a = Some (length ([] :: string option list))"
      and "c = b"
      by (auto simp: filter_by_parental_rating_def parental_count_def split: if_splits)
    then show ?thesis by (intro exI [of _ "[]"]) simp
  next
    case (Array_value prs)
    with True assms show ?thesis
      by (intro exI [of _ prs])
         (auto simp: filter_by_parental_rating_def parental_count_def Let_def split: if_splits)
  qed
qed

lemma filter_by_parental_rating_text:
  assumes "length (queryParams b1) = length (queryParams b2)"
    and "map render (whereClauses b1) = map render (whereClauses b2)"
    and "parental_count P a1 = parental_count P a2"
    and "filter_by_parental_rating P a1 b1 = Inr c1"
    and "filter_by_parental_rating P a2 b2 = Inr c2"
  shows "length (queryParams c1) = length (queryParams c2) \<and>
         map render (whereClauses c1) = map render (whereClauses c2)"
proof -
  from filter_by_parental_rating_shape [OF assms(4)]
  obtain p1 where p1: "parental_count P a1 = Some (length p1)"
    "c1 = (if p1 \<noteq> []
           then push_clause (In (Col Parental_rating)
                               (placeholders (push_params (map bound_text p1) b1) (length p1)))
                  (push_params (map bound_text p1) b1)
           else b1)" by blast
  from filter_by_parental_rating_shape [OF assms(5)]
  obtain p2 where p2: "parental_count P a2 = Some (length p2)"
    "c2 = (if p2 \<noteq> []
           then push_clause (In (Col Parental_rating)
                               (placeholders (push_params (map bound_text p2) b2) (length p2)))
                  (push_params (map bound_text p2) b2)
           else b2)" by blast
  from p1(1) p2(1) assms(3) have len: "length p1 = length p2" by simp
  then have e: "(p1 = []) = (p2 = [])" by auto
  show ?thesis
    using assms(1,2) len e placeholders_text [OF assms(1) len, of bound_text bound_text]
    by (auto simp: p1(2) p2(2) push_text)
qed

lemma filter_by_duration_text:
  assumes "length (queryParams b1) = length (queryParams b2)"
    and "map render (whereClauses b1) = map render (whereClauses b2)"
    and "duration_choice a1 = duration_choice a2"
  shows "length (queryParams (filter_by_duration a1 b1))
           = length (queryParams (filter_by_duration a2 b2)) \<and>
         map render (whereClauses (filter_by_duration a1 b1))
           = map render (whereClauses (filter_by_duration a2 b2))"
proof -
  have f: "filter_by_duration a b
             = (case duration_choice a of None \<Rightarrow> b | Some c \<Rightarrow> push_clause (Paren c) b)" for a b
    by (simp add: filter_by_duration_def duration_choice_def)
  show ?thesis
    using assms by (simp add: f push_clause_def split: option.splits)
qed

lemma in_list_text:
  assumes "length (queryParams b1) = length (queryParams b2)"
    and "map render (whereClauses b1) = map render (whereClauses b2)"
    and "length us1 = length us2"
  shows "length (queryParams (push_clause (In x (placeholders (push_params (map f1 us1) b1) (length us1)))
                                (push_params (map f1 us1) b1)))
           = length (queryParams (push_clause (In x (placeholders (push_params (map f2 us2) b2) (length us2)))
                                (push_params (map f2 us2) b2))) \<and>
         map render (whereClauses (push_clause (In x (placeholders (push_params (map f1 us1) b1) (length us1)))
                                (push_params (map f1 us1) b1)))
           = map render (whereClauses (push_clause (In x (placeholders (push_params (map f2 us2) b2) (length us2)))
                                (push_params (map f2 us2) b2)))"
    and "length (queryParams (push_clause (NotIn x (placeholders (push_params (map f1 us1) b1) (length us1)))
                                (push_params (map f1 us1) b1)))
           = length (queryParams (push_clause (NotIn x (placeholders (push_params (map f2 us2) b2) (length us2)))
                                (push_params (map f2 us2) b2))) \<and>
         map render (whereClauses (push_clause (NotIn x (placeholders (push_params (map f1 us1) b1) (length us1)))
                                (push_params (map f1 us1) b1)))
           = map render (whereClauses (push_clause (NotIn x (placeholders (push_params (map f2 us2) b2) (length us2)))
                                (push_params (map f2 us2) b2)))"
  using assms placeholders_text [OF assms(1,3), of f1 f2] by (simp_all add: push_text)

lemma filter_by_genres_text:
  assumes "length (queryParams b1) = length (queryParams b2)"
    and "map render (whereClauses b1) = map render (whereClauses b2)"
    and "uid_count (genre_uids a1) = uid_count (genre_uids a2)"
  shows "length (queryParams (filter_by_genres a1 b1))
           = length (queryParams (filter_by_genres a2 b2)) \<and>
         map render (whereClauses (filter_by_genres a1 b1))
           = map render (whereClauses (filter_by_genres a2 b2))"
proof -
  have f: "filter_by_genres a b
             = (if or_default (genre_uids a) [] \<noteq> []
                then push_clause (In (Col G_uid)
                       (placeholders (push_params (map TextV (or_default (genre_uids a) [])) b)
                          (length (or_default (genre_uids a) []))))
                       (push_params (map TextV (or_default (genre_uids a) [])) b)
                else b)" for a b
    by (simp add: filter_by_genres_def or_default_def Let_def split: option.splits)
  have len: "length (or_default (genre_uids a1) []) = length (or_default (genre_uids a2) [])"
    using assms(3) by (simp add: uid_count_def or_default_def split: option.splits)
  then have e: "(or_default (genre_uids a1) [] = []) = (or_default (genre_uids a2) [] = [])"
    by auto
  show ?thesis
    unfolding f using in_list_text(1) [OF assms(1,2) len, of _ TextV TextV] assms(1,2) e by auto
qed


lemma exclude_by_genres_text:
  assumes "length (queryParams b1) = length (queryParams b2)"
    and "map render (whereClauses b1) = map render (whereClauses b2)"
    and "length (excluded_genre_uids a1) = length (excluded_genre_uids a2)"
  shows "length (queryParams (exclude_by_genres a1 b1))
           = length (queryParams (exclude_by_genres a2 b2)) \<and>
         map render (whereClauses (exclude_by_genres a1 b1))
           = map render (whereClauses (exclude_by_genres a2 b2))"
proof -
  from assms(3) have e: "(excluded_genre_uids a1 = []) = (excluded_genre_uids a2 = [])"
    by auto
  show ?thesis
    unfolding exclude_by_genres_def Let_def
    using in_list_text(2) [OF assms, of _ TextV TextV] assms(1,2) e by auto
qed

lemma filter_by_streaming_services_text:
  assumes "length (queryParams b1) = length (queryParams b2)"
    and "map render (whereClauses b1) = map render (whereClauses b2)"
    and "uid_count (streaming_service_uids a1) = uid_count (streaming_service_uids a2)"
  shows "length (queryParams (filter_by_streaming_services a1 b1))
           = length (queryParams (filter_by_streaming_services a2 b2)) \<and>
         map render (whereClauses (filter_by_streaming_services a1 b1))
           = map render (whereClauses (filter_by_streaming_services a2 b2))"
proof -
  have f: "filter_by_streaming_services a b
             = (if or_default (streaming_service_uids a) [] \<noteq> []
                then push_clause (In (Col SS_uid)
                       (placeholders
                          (push_params (map TextV (or_default (streaming_service_uids a) [])) b)
                          (length (or_default (streaming_service_uids a) []))))
                       (push_params (map TextV (or_default (streaming_service_uids a) [])) b)
                else b)" for a b
    by (simp add: filter_by_streaming_services_def or_default_def Let_def split: option.splits)
  have len: "length (or_default (streaming_service_uids a1) [])
               = length (or_default (streaming_service_uids a2) [])"
    using assms(3) by (simp add: uid_count_def or_default_def split: option.splits)
  then have e: "(or_default (streaming_service_uids a1) [] = [])
                  = (or_default (streaming_service_uids a2) [] = [])"
    by auto
  show ?thesis
    unfolding f using in_list_text(1) [OF assms(1,2) len, of _ TextV TextV] assms(1,2) e by auto
qed

lemma exclude_streaming_services_text:
  assumes "length (queryParams b1) = length (queryParams b2)"
    and "map render (whereClauses b1) = map render (whereClauses b2)"
    and "length (excluded_service_uids a1) = length (excluded_service_uids a2)"
  shows "length (queryParams (exclude_streaming_services a1 b1))
           = length (queryParams (exclude_streaming_services a2 b2)) \<and>
         map render (whereClauses (exclude_streaming_services a1 b1))
           = map render (whereClauses (exclude_streaming_services a2 b2))"
proof -
  from assms(3) have e: "(excluded_service_uids a1 = []) = (excluded_service_uids a2 = [])"
    by auto
  show ?thesis
    unfolding exclude_streaming_services_def Let_def
    using in_list_text(2) [OF assms, of _ TextV TextV] assms(1,2) e by auto
qed

lemma text_from_signature:
  assumes "length (queryParams b1) = length (queryParams b2)"
    and "map render (whereClauses b1) = map render (whereClauses b2)"
  shows "query_text b1 = query_text b2" and "countQuery_text b1 = countQuery_text b2"
proof -
  have "length (whereClauses b1) = length (whereClauses b2)"
    using arg_cong [OF assms(2), of length] by simp
  with assms show "query_text b1 = query_text b2" and "countQuery_text b1 = countQuery_text b2"
    by (simp_all add: query_text_def countQuery_text_def)
qed

text \<open>
  Claim C8. Two requests of the same shape (the same conditions switched on, the same
  number of values in each list) get the same text for the page query and the same text
  for the count query: no value of the request is part of the text, the values are in the
  parameter list only.
\<close>

theorem query_text_depends_on_shape_only:
  assumes "shape JSON_parse a1 = shape JSON_parse a2"
    and "build JSON_parse a1 = Inr b1"
    and "build JSON_parse a2 = Inr b2"
  shows "query_text b1 = query_text b2 \<and> countQuery_text b1 = countQuery_text b2 \<and>
         length (queryParams b1) = length (queryParams b2)"
proof -
  let ?b0 = "\<lparr>queryParams = [], whereClauses = []\<rparr>"
  from assms(2) obtain c1
    where c1: "filter_by_parental_rating JSON_parse a1
                 (filter_by_minimum_rating a1 (filter_by_release_year a1
                    (filter_by_content_type a1 ?b0))) = Inr c1"
      and b1: "b1 = exclude_streaming_services a1 (filter_by_streaming_services a1
                  (exclude_by_genres a1 (filter_by_genres a1 (filter_by_duration a1 c1))))"
    by (auto simp: build_def Let_def split: sum.splits)
  from assms(3) obtain c2
    where c2: "filter_by_parental_rating JSON_parse a2
                 (filter_by_minimum_rating a2 (filter_by_release_year a2
                    (filter_by_content_type a2 ?b0))) = Inr c2"
      and b2: "b2 = exclude_streaming_services a2 (filter_by_streaming_services a2
                  (exclude_by_genres a2 (filter_by_genres a2 (filter_by_duration a2 c2))))"
    by (auto simp: build_def Let_def split: sum.splits)
  from assms(1) have s:
    "(preferred_content_type a1 \<noteq> ''both'') = (preferred_content_type a2 \<noteq> ''both'')"
    "(min_release_year a1 \<noteq> 0 \<and> max_release_year a1 \<noteq> 0)
       = (min_release_year a2 \<noteq> 0 \<and> max_release_year a2 \<noteq> 0)"
    "(0 < min_rating a1) = (0 < min_rating a2)"
    "parental_count JSON_parse a1 = parental_count JSON_parse a2"
    "duration_choice a1 = duration_choice a2"
    "uid_count (genre_uids a1) = uid_count (genre_uids a2)"
    "length (excluded_genre_uids a1) = length (excluded_genre_uids a2)"
    "uid_count (streaming_service_uids a1) = uid_count (streaming_service_uids a2)"
    "length (excluded_service_uids a1) = length (excluded_service_uids a2)"
    by (simp_all add: shape_def)
  have t0: "length (queryParams ?b0) = length (queryParams ?b0) \<and>
            map render (whereClauses ?b0) = map render (whereClauses ?b0)"
    by simp
  note t1 = filter_by_content_type_text [OF conjunct1 [OF t0] conjunct2 [OF t0] s(1)]
  note t2 = filter_by_release_year_text [OF conjunct1 [OF t1] conjunct2 [OF t1] s(2)]
  note t3 = filter_by_minimum_rating_text [OF conjunct1 [OF t2] conjunct2 [OF t2] s(3)]
  note t4 = filter_by_parental_rating_text [OF conjunct1 [OF t3] conjunct2 [OF t3] s(4) c1 c2]
  note t5 = filter_by_duration_text [OF conjunct1 [OF t4] conjunct2 [OF t4] s(5)]
  note t6 = filter_by_genres_text [OF conjunct1 [OF t5] conjunct2 [OF t5] s(6)]
  note t7 = exclude_by_genres_text [OF conjunct1 [OF t6] conjunct2 [OF t6] s(7)]
  note t8 = filter_by_streaming_services_text [OF conjunct1 [OF t7] conjunct2 [OF t7] s(8)]
  note t9 = exclude_streaming_services_text [OF conjunct1 [OF t8] conjunct2 [OF t8] s(9)]
  from t9 have "length (queryParams b1) = length (queryParams b2)"
    and "map render (whereClauses b1) = map render (whereClauses b2)"
    unfolding b1 b2 by simp_all
  then show ?thesis
    using text_from_signature by blast
qed

theorem query_text_depends_on_shape_only_witness:
  "shape no_JSON (destructure 2026 body_plain) = shape no_JSON (destructure 2026 body_hostile) \<and>
   (\<exists>b1 b2.
      build no_JSON (destructure 2026 body_plain) = Inr b1 \<and>
      build no_JSON (destructure 2026 body_hostile) = Inr b2 \<and>
      map render (whereClauses b2) =
        [''c.content_type = $1'', ''c.release_year BETWEEN $2 AND $3'', ''g.uid IN ($4,$5)''] \<and>
      queryParams b2 =
        [TextV ''tv_show; --'', IntV 1900, IntV 1960,
         TextV ''x) OR (1=1'', TextV ''; DROP TABLE content; --''] \<and>
      query_text b1 = query_text b2 \<and> countQuery_text b1 = countQuery_text b2)"
proof -
  have s: "shape no_JSON (destructure 2026 body_plain)
             = shape no_JSON (destructure 2026 body_hostile)"
    by code_simp
  have b1: "build no_JSON (destructure 2026 body_plain)
              = Inr \<lparr>queryParams = [TextV ''movie'', IntV 1990, IntV 2026,
                                     TextV ''g1'', TextV ''g2''],
                     whereClauses = [Cmp (Col Content_type) EQ (Param 1),
                                     Between (Col Release_year) (Param 2) (Param 3),
                                     In (Col G_uid) [Param 4, Param 5]]\<rparr>"
    by code_simp
  have b2: "build no_JSON (destructure 2026 body_hostile)
              = Inr \<lparr>queryParams = [TextV ''tv_show; --'', IntV 1900, IntV 1960,
                                     TextV ''x) OR (1=1'', TextV ''; DROP TABLE content; --''],
                     whereClauses = [Cmp (Col Content_type) EQ (Param 1),
                                     Between (Col Release_year) (Param 2) (Param 3),
                                     In (Col G_uid) [Param 4, Param 5]]\<rparr>"
    by code_simp
  have r: "map render [Cmp (Col Content_type) EQ (Param 1),
                       Between (Col Release_year) (Param 2) (Param 3),
                       In (Col G_uid) [Param 4, Param 5]]
             = [''c.content_type = $1'', ''c.release_year BETWEEN $2 AND $3'',
                ''g.uid IN ($4,$5)'']"
    by code_simp
  from query_text_depends_on_shape_only [OF s b1 b2] s b1 b2 r show ?thesis
    by simp
qed


section \<open>Exclusion is decided row by row\<close>

text \<open>
  Claim C2, at the failing input. The store holds one title, \<^verbatim>\<open>solo\<close>, with no row in
  \<^verbatim>\<open>content_genres\<close>. Without any filter it is returned. With
  \<^verbatim>\<open>excluded_genre_uids = ["g1"]\<close> and nothing else it is neither returned nor counted: its
  only joined row has \<^verbatim>\<open>g.uid\<close> NULL, and \<^verbatim>\<open>NULL NOT IN ($3)\<close> is unknown, not true.
\<close>

theorem item_without_genres_dropped_by_genre_exclusion:
  "returned_uids (handler no_JSON 2026 (\<lambda>xs. xs) store_no_genre empty_body) = [''solo''] \<and>
   handler no_JSON 2026 (\<lambda>xs. xs) store_no_genre
     (empty_body\<lparr>body_excluded_genre_uids := Some [''g1'']\<rparr>)
   = Inr \<lparr>recommendations = [], total_results = 0, res_page = 1, res_page_size = 20\<rparr>"
  by code_simp

text \<open>
  Claim C9, at the failing input. The store holds one title, \<^verbatim>\<open>m\<close>, with the genres
  \<^verbatim>\<open>g1\<close> and \<^verbatim>\<open>g2\<close>. With \<^verbatim>\<open>excluded_genre_uids = ["g1"]\<close> it is returned and counted all
  the same, its \<^verbatim>\<open>genres\<close> array cut down to \<^verbatim>\<open>g2\<close>: the joined row \<^verbatim>\<open>(m, g2)\<close> passes
  \<^verbatim>\<open>g.uid NOT IN ($3)\<close>, and \<^verbatim>\<open>GROUP BY c.uid\<close> makes a group of it.
\<close>

theorem item_with_excluded_genre_returned:
  "handler no_JSON 2026 (\<lambda>xs. xs) store_two_genres
     (empty_body\<lparr>body_excluded_genre_uids := Some [''g1'']\<rparr>)
   = Inr \<lparr>recommendations =
            [\<lparr>rec_content = movie ''m'' 2000 (Some 100) (Some 70) (Some 80),
              rec_genres = [(''g2'', ''Comedy'')],
              rec_available_on_services = []\<rparr>],
          total_results = 1, res_page = 1, res_page_size = 20\<rparr>"
  by code_simp

section \<open>The rendered text of a condition\<close>

lemma duration_short_text:
  "map_option render (durationCondition ''short'') =
     Some (''(c.content_type = '' @ [quote] @ ''movie'' @ [quote] @
           '' AND c.duration_minutes < 60) OR (c.content_type = '' @ [quote] @ ''tv_show'' @
           [quote] @ '' AND c.number_of_seasons = 1)'')"
  by code_simp

lemma duration_medium_text:
  "map_option render (durationCondition ''medium'') =
     Some (''(c.content_type = '' @ [quote] @ ''movie'' @ [quote] @
           '' AND c.duration_minutes BETWEEN 60 AND 120) OR (c.content_type = '' @ [quote] @
           ''tv_show'' @ [quote] @ '' AND c.number_of_seasons BETWEEN 2 AND 4)'')"
  by code_simp

lemma rating_text:
  "map render (whereClauses (filter_by_minimum_rating
                 (destructure 2026 (empty_body\<lparr>body_min_rating := Some 85\<rparr>))
                 \<lparr>queryParams = [IntV 1900, IntV 2026], whereClauses = []\<rparr>))
     = [''(c.imdb_rating >= $3 OR c.rotten_tomatoes_score >= $4)'']"
  by code_simp

end
